theory Spec2Isabelle
  imports Main "HOL-Library.Sublist"
begin

section \<open>Data model of server.go\<close>

text \<open>
  The server is one Go file: four HTTP handlers over the Stripe client library. The
  handlers are embedded as functions from an environment (process environment and
  the answers of the external services and libraries), a request and the state of
  the response writer to the state after the handler has returned. That state
  also carries the ordered trace of everything the handler wrote to standard
  output, standard error and the logger, and of every call it made to a
  collaborator.
\<close>

type_synonym bytes = string

definition nl :: string where
  "nl = [CHR 0x0A]"

definition dq :: string where
  "dq = [CHR 0x22]"

text \<open>The fields of \<^verbatim>\<open>stripe.Price\<close>, \<^verbatim>\<open>stripe.PaymentIntent\<close>,
  \<^verbatim>\<open>stripe.CheckoutSession\<close> and \<^verbatim>\<open>stripe.Event\<close> that server.go reads. A Go pointer
  field that may be nil is an option.\<close>

record Price =
  UnitAmount :: int
  PriceCurrency :: string

record PaymentIntent =
  PaymentIntentID :: string

record CheckoutSession =
  URL :: string
  PaymentIntent :: "PaymentIntent option"
  PaymentStatus :: string
  AmountTotal :: int
  Currency :: string

record Event =
  ID :: string
  Type :: string
  Data_Raw :: "bytes option"

text \<open>\<^verbatim>\<open>stripe.CheckoutSessionParams\<close> as built at lines 88 to 98: one line item.\<close>

record CheckoutSessionLineItemParams =
  Quantity :: int
  LineItemPrice :: string

record CheckoutSessionParams =
  SuccessURL :: string
  CancelURL :: string
  Mode :: string
  LineItems :: "CheckoutSessionLineItemParams list"

text \<open>The values handed to \<^verbatim>\<open>writeJSON\<close>. An object lists its members in the order
  the encoder emits them (struct fields in declaration order, map keys sorted).\<close>

datatype json =
    JString string
  | JInt int
  | JBool bool
  | JObject "(string \<times> json) list"
  | JSession CheckoutSession

text \<open>Lines 41 to 47.\<close>

record ErrorResponseMessage =
  Message :: string

record ErrorResponse =
  Error :: ErrorResponseMessage

subsection \<open>Requests\<close>

text \<open>
  \<open>Body\<close> is what the client sent and \<open>BodyErr\<close> a transport error met while
  reading it. \<open>Query\<close>, \<open>PostForm\<close> and \<open>Header\<close> hold the first value of each key.
  \<open>ParseFormErr\<close> is the error \<^verbatim>\<open>r.ParseForm()\<close> returns for the request, for instance
  for a pair with a bad escape such as \<^verbatim>\<open>x=%zz\<close>; the pairs that did parse are in
  \<open>PostForm\<close> all the same.
\<close>

record Request =
  Method :: string
  Query :: "string \<rightharpoonup> string"
  PostForm :: "string \<rightharpoonup> string"
  Header :: "string \<rightharpoonup> string"
  Body :: bytes
  BodyErr :: "string option"
  ParseFormErr :: "string option"

definition Values_Get :: "(string \<rightharpoonup> string) \<Rightarrow> string \<Rightarrow> string" where
  "Values_Get m k = (case m k of None \<Rightarrow> [] | Some v \<Rightarrow> v)"

text \<open>\<^verbatim>\<open>r.PostFormValue\<close>: the body of a POST, PUT or PATCH request only.\<close>

definition PostFormValue :: "Request \<Rightarrow> string \<Rightarrow> string" where
  "PostFormValue r k =
     (if Method r = ''POST'' \<or> Method r = ''PUT'' \<or> Method r = ''PATCH''
      then Values_Get (PostForm r) k else [])"

text \<open>\<^verbatim>\<open>ioutil.ReadAll(http.MaxBytesReader(w, r.Body, MaxBodyBytes))\<close>.\<close>

definition MaxBodyBytes :: nat where
  "MaxBodyBytes = 65536"

definition ReadAll :: "Request \<Rightarrow> string + bytes" where
  "ReadAll r =
     (if length (Body r) > MaxBodyBytes then Inl ''http: request body too large''
      else case BodyErr r of Some e \<Rightarrow> Inl e | None \<Rightarrow> Inr (Body r))"

subsection \<open>Effects and the response writer\<close>

datatype call =
    price_Get_call string
  | session_Get_call string
  | session_New_call CheckoutSessionParams
  | json_Unmarshal_Event_call bytes
  | json_Unmarshal_CheckoutSession_call bytes
  | ValidatePayload_call bytes string string
  | ConstructEvent_call bytes string string
  | sendConfirmationEmail_call "(string \<times> json) list"
  | updatePaymentStatus_call "(string \<times> json) list"

text \<open>A call is recorded with the error it returned (\<open>None\<close> is Go's nil).\<close>

datatype effect =
    Stdout string
  | Stderr string
  | LogPrintf string
  | Call call "string option"

text \<open>
  \<open>status\<close> is \<open>None\<close> until the header is written; net/http then answers 200.
  A handler that panics stops: \<open>panicked\<close> holds the runtime error.
\<close>

record exec =
  status :: "nat option"
  header :: "string \<rightharpoonup> string"
  body :: string
  trace :: "effect list"
  panicked :: "string option"

definition start :: exec where
  "start = \<lparr>status = None, header = Map.empty, body = [], trace = [], panicked = None\<rparr>"

definition final_status :: "exec \<Rightarrow> nat" where
  "final_status w = (case status w of None \<Rightarrow> 200 | Some c \<Rightarrow> c)"

definition emit :: "effect \<Rightarrow> exec \<Rightarrow> exec" where
  "emit e w = w\<lparr>trace := trace w @ [e]\<rparr>"

definition Println :: "string \<Rightarrow> exec \<Rightarrow> exec" where
  "Println s w = emit (Stdout (s @ nl)) w"

definition emit_all :: "effect list \<Rightarrow> exec \<Rightarrow> exec" where
  "emit_all es w = w\<lparr>trace := trace w @ es\<rparr>"

definition panic :: "string \<Rightarrow> exec \<Rightarrow> exec" where
  "panic msg w = w\<lparr>panicked := Some msg\<rparr>"

text \<open>\<^verbatim>\<open>w.Header().Set\<close>: no effect on the response once the header is written.\<close>

definition Header_Set :: "string \<Rightarrow> string \<Rightarrow> exec \<Rightarrow> exec" where
  "Header_Set k v w = (if status w = None then w\<lparr>header := (header w)(k \<mapsto> v)\<rparr> else w)"

definition WriteHeader :: "nat \<Rightarrow> exec \<Rightarrow> exec" where
  "WriteHeader code w = (if status w = None then w\<lparr>status := Some code\<rparr> else w)"

definition Write :: "string \<Rightarrow> exec \<Rightarrow> exec" where
  "Write bs w = (let w1 = WriteHeader 200 w in w1\<lparr>body := body w1 @ bs\<rparr>)"

text \<open>\<^verbatim>\<open>http.Error\<close>: a plain-text reply, the message and a newline.\<close>

definition http_Error :: "string \<Rightarrow> nat \<Rightarrow> exec \<Rightarrow> exec" where
  "http_Error msg code w =
     Write (msg @ nl)
       (WriteHeader code
         (Header_Set ''X-Content-Type-Options'' ''nosniff''
           (Header_Set ''Content-Type'' ''text/plain; charset=utf-8'' w)))"

text \<open>\<^verbatim>\<open>http.Redirect\<close> for the absolute URL of a hosted checkout page. The HTML note
  it adds for GET and HEAD requests is left out: \<open>PostFormValue\<close> is empty for
  those methods, so the handler has answered 500 before.\<close>

definition http_Redirect :: "string \<Rightarrow> nat \<Rightarrow> exec \<Rightarrow> exec" where
  "http_Redirect url code w = WriteHeader code (Header_Set ''Location'' url w)"

definition StatusMethodNotAllowed :: nat where "StatusMethodNotAllowed = 405"
definition StatusInternalServerError :: nat where "StatusInternalServerError = 500"
definition StatusServiceUnavailable :: nat where "StatusServiceUnavailable = 503"
definition StatusBadRequest :: nat where "StatusBadRequest = 400"
definition StatusSeeOther :: nat where "StatusSeeOther = 303"

definition StatusText :: "nat \<Rightarrow> string" where
  "StatusText code = (if code = 405 then ''Method Not Allowed'' else [])"

subsection \<open>The environment\<close>

text \<open>
  What server.go takes from outside its own text: the process environment, the Stripe
  API (\<^verbatim>\<open>price.Get\<close>, \<^verbatim>\<open>session.Get\<close>, \<^verbatim>\<open>session.New\<close>), the webhook package,
  and the decoders and string encoders of the standard library. \<^verbatim>\<open>price.Get\<close> and
  \<^verbatim>\<open>session.Get\<close> return a pointer to a struct they allocated together with the
  error, so the struct is there when the error is set. \<open>stripe_logger\<close> gives the lines
  the logger of the Stripe client, which \<open>main\<close> leaves as it is, writes to standard
  error during an API call that returns the given error.
\<close>

record env =
  Getenv :: "string \<Rightarrow> string"
  price_Get :: "string \<Rightarrow> Price \<times> string option"
  session_Get :: "string \<Rightarrow> CheckoutSession \<times> string option"
  session_New :: "CheckoutSessionParams \<Rightarrow> string + CheckoutSession"
  stripe_logger :: "string option \<Rightarrow> string list"
  json_Unmarshal_Event :: "bytes \<Rightarrow> string + Event"
  json_Unmarshal_CheckoutSession :: "bytes \<Rightarrow> string + CheckoutSession"
  webhook_ValidatePayload :: "bytes \<Rightarrow> string \<Rightarrow> string \<Rightarrow> string option"
  webhook_ConstructEvent :: "bytes \<Rightarrow> string \<Rightarrow> string \<Rightarrow> string + Event"
  json_string :: "string \<Rightarrow> string"
  json_Encode_CheckoutSession :: "CheckoutSession \<Rightarrow> string + string"
  io_Copy_err :: "string \<Rightarrow> string option"
  strconv_Quote :: "string \<Rightarrow> string"

text \<open>An API call that returned \<open>err\<close>: what the client's logger wrote, then the
  call with its result.\<close>

definition stripe_call :: "env \<Rightarrow> call \<Rightarrow> string option \<Rightarrow> exec \<Rightarrow> exec" where
  "stripe_call env c err w = emit (Call c err) (emit_all (map Stderr (stripe_logger env err)) w)"

section \<open>strconv.ParseInt, base 10, 64 bits\<close>

datatype NumError = ErrSyntax | ErrRange

definition is_digit :: "char \<Rightarrow> bool" where
  "is_digit c = (48 \<le> (of_char c :: int) \<and> (of_char c :: int) \<le> 57)"

definition maxUint64 :: int where
  "maxUint64 = 2 ^ 64 - 1"

text \<open>The loop of \<^verbatim>\<open>ParseUint\<close>: a character that is no digit is a syntax error,
  a value that leaves 64 bits a range error, whichever comes first.\<close>

fun ParseUint_loop :: "string \<Rightarrow> int \<Rightarrow> NumError + int" where
  "ParseUint_loop [] n = Inr n"
| "ParseUint_loop (c # cs) n =
     (if \<not> is_digit c then Inl ErrSyntax
      else if n \<ge> maxUint64 div 10 + 1 then Inl ErrRange
      else let n1 = n * 10 + ((of_char c :: int) - 48)
           in if n1 > maxUint64 then Inl ErrRange else ParseUint_loop cs n1)"

definition ParseUint :: "string \<Rightarrow> NumError + int" where
  "ParseUint s = (if s = [] then Inl ErrSyntax else ParseUint_loop s 0)"

definition ParseInt :: "string \<Rightarrow> NumError + int" where
  "ParseInt s =
     (if s = [] then Inl ErrSyntax
      else let neg = (hd s = CHR ''-'');
               s1 = (if hd s = CHR ''+'' \<or> hd s = CHR ''-'' then tl s else s)
           in case ParseUint s1 of
                Inl e \<Rightarrow> Inl e
              | Inr un \<Rightarrow>
                  if \<not> neg \<and> un \<ge> 2 ^ 63 then Inl ErrRange
                  else if neg \<and> un > 2 ^ 63 then Inl ErrRange
                  else Inr (if neg then - un else un))"

definition NumError_text :: "NumError \<Rightarrow> string" where
  "NumError_text e = (case e of ErrSyntax \<Rightarrow> ''invalid syntax'' | ErrRange \<Rightarrow> ''value out of range'')"

text \<open>\<^verbatim>\<open>(*strconv.NumError).Error()\<close> for a failed \<^verbatim>\<open>ParseInt\<close> of \<open>s\<close>.\<close>

definition NumError_Error :: "env \<Rightarrow> string \<Rightarrow> NumError \<Rightarrow> string" where
  "NumError_Error env s e =
     ''strconv.ParseInt: parsing '' @ strconv_Quote env s @ '': '' @ NumError_text e"

text \<open>The slice expression \<^verbatim>\<open>s[lo:]\<close> of a string: a run-time panic when \<open>lo\<close> is
  beyond the length, the rest of the string otherwise.\<close>

definition slice_from :: "string \<Rightarrow> nat \<Rightarrow> string + string" where
  "slice_from s lo =
     (if lo \<le> length s then Inr (drop lo s)
      else Inl ''runtime error: slice bounds out of range'')"

section \<open>Encoding replies\<close>

text \<open>\<^verbatim>\<open>strconv.FormatInt(i, 10)\<close>, as \<^verbatim>\<open>fmt.Println\<close> and the JSON encoder print an
  \<^verbatim>\<open>int64\<close>.\<close>

function FormatUint :: "int \<Rightarrow> string" where
  "FormatUint n =
     (if n < 10 then [char_of (48 + n)]
      else FormatUint (n div 10) @ [char_of (48 + n mod 10)])"
  by pat_completeness auto
termination
  by (relation "measure nat") auto

definition FormatInt :: "int \<Rightarrow> string" where
  "FormatInt i = (if i < 0 then CHR ''-'' # FormatUint (- i) else FormatUint i)"

text \<open>
  \<^verbatim>\<open>encoding/json\<close> on the values server.go encodes: compact output, members in
  the order of the list. The escaping of a string literal and the encoding of a whole
  \<^verbatim>\<open>stripe.CheckoutSession\<close> are the library's and come from the environment.
\<close>

fun json_Marshal :: "env \<Rightarrow> json \<Rightarrow> string + string"
  and json_members :: "env \<Rightarrow> (string \<times> json) list \<Rightarrow> string + string" where
  "json_Marshal env (JString s) = Inr (json_string env s)"
| "json_Marshal env (JInt i) = Inr (FormatInt i)"
| "json_Marshal env (JBool b) = Inr (if b then ''true'' else ''false'')"
| "json_Marshal env (JSession s) = json_Encode_CheckoutSession env s"
| "json_Marshal env (JObject kvs) =
     (case json_members env kvs of Inl e \<Rightarrow> Inl e | Inr ms \<Rightarrow> Inr (''{'' @ ms @ ''}''))"
| "json_members env [] = Inr []"
| "json_members env (kv # kvs) =
     (case json_Marshal env (snd kv) of
        Inl e \<Rightarrow> Inl e
      | Inr s \<Rightarrow>
          (case json_members env kvs of
             Inl e \<Rightarrow> Inl e
           | Inr ms \<Rightarrow>
               Inr (dq @ fst kv @ dq @ '':'' @ s @ (if kvs = [] then [] else '','' @ ms))))"

text \<open>\<^verbatim>\<open>json.NewEncoder(&buf).Encode(v)\<close>: the encoding and a newline.\<close>

definition json_Encode :: "env \<Rightarrow> json \<Rightarrow> string + string" where
  "json_Encode env v = (case json_Marshal env v of Inl e \<Rightarrow> Inl e | Inr s \<Rightarrow> Inr (s @ nl))"

text \<open>Lines 189 to 201. When the copy to the client fails the header has gone out
  and the bytes that arrived are unknown: none are recorded.\<close>

definition writeJSON :: "env \<Rightarrow> json \<Rightarrow> exec \<Rightarrow> exec" where
  "writeJSON env v w =
     (case json_Encode env v of
        Inl err \<Rightarrow>
          emit (LogPrintf (''json.NewEncoder.Encode: '' @ err))
            (http_Error err StatusInternalServerError w)
      | Inr buf \<Rightarrow>
          (let w1 = Header_Set ''Content-Type'' ''application/json'' w
           in case io_Copy_err env buf of
                Some err \<Rightarrow> emit (LogPrintf (''io.Copy: '' @ err)) (WriteHeader 200 w1)
              | None \<Rightarrow> Write buf w1))"

text \<open>Lines 203 to 207.\<close>

definition writeJSONError :: "env \<Rightarrow> json \<Rightarrow> nat \<Rightarrow> exec \<Rightarrow> exec" where
  "writeJSONError env v code w = writeJSON env v (WriteHeader code w)"

definition ErrorResponse_json :: "ErrorResponse \<Rightarrow> json" where
  "ErrorResponse_json resp =
     JObject [(''error'', JObject [(''message'', JString (Message (Error resp)))])]"

text \<open>Lines 209 to 216. No handler calls it.\<close>

definition writeJSONErrorMessage :: "env \<Rightarrow> string \<Rightarrow> nat \<Rightarrow> exec \<Rightarrow> exec" where
  "writeJSONErrorMessage env message code w =
     (let resp = \<lparr>Error = \<lparr>Message = message\<rparr>\<rparr>
      in writeJSONError env (ErrorResponse_json resp) code w)"

section \<open>The handlers\<close>

text \<open>Lines 49 to 67. The error of \<^verbatim>\<open>price.Get\<close> is assigned to the blank identifier.\<close>

definition handleConfig :: "env \<Rightarrow> Request \<Rightarrow> exec \<Rightarrow> exec" where
  "handleConfig env r w =
     (if Method r \<noteq> ''GET''
      then http_Error (StatusText StatusMethodNotAllowed) StatusMethodNotAllowed w
      else
        (let res = price_Get env (Getenv env ''PRICE'');
             p = fst res;
             w1 = stripe_call env (price_Get_call (Getenv env ''PRICE'')) (snd res) w
         in writeJSON env
              (JObject [(''publicKey'', JString (Getenv env ''STRIPE_SECRET_KEY'')),
                        (''unitAmount'', JInt (UnitAmount p)),
                        (''currency'', JString (PriceCurrency p))])
              w1))"

text \<open>Lines 69 to 77. The error of \<^verbatim>\<open>session.Get\<close> is assigned to the blank
  identifier.\<close>

definition handleCheckoutSession :: "env \<Rightarrow> Request \<Rightarrow> exec \<Rightarrow> exec" where
  "handleCheckoutSession env r w =
     (if Method r \<noteq> ''GET''
      then http_Error (StatusText StatusMethodNotAllowed) StatusMethodNotAllowed w
      else
        (let sessionID = Values_Get (Query r) ''sessionId'';
             res = session_Get env sessionID;
             s = fst res;
             w1 = stripe_call env (session_Get_call sessionID) (snd res) w
         in writeJSON env (JSession s) w1))"

text \<open>Lines 79 to 106. The error \<^verbatim>\<open>r.ParseForm()\<close> returns at line 80 is not
  assigned: the handler goes on with the values that parsed.\<close>

definition handleCreateCheckoutSession :: "env \<Rightarrow> Request \<Rightarrow> exec \<Rightarrow> exec" where
  "handleCreateCheckoutSession env r w =
     (case slice_from (PostFormValue r ''quantity'') 0 of
        Inl rt \<Rightarrow> panic rt w
      | Inr q \<Rightarrow>
          (case ParseInt q of
             Inl e \<Rightarrow>
               http_Error (''error parsing quantity '' @ NumError_Error env q e)
                 StatusInternalServerError w
           | Inr quantity \<Rightarrow>
               (let domainURL = Getenv env ''DOMAIN'';
                    params =
                      \<lparr>SuccessURL = domainURL @ ''/html/success.html?session_id={CHECKOUT_SESSION_ID}'',
                       CancelURL = domainURL @ ''/canceled.html'',
                       Mode = ''payment'',
                       LineItems = [\<lparr>Quantity = quantity, LineItemPrice = Getenv env ''PRICE''\<rparr>]\<rparr>
                in case session_New env params of
                     Inl err \<Rightarrow>
                       http_Error (''error while creating session '' @ err)
                         StatusInternalServerError
                         (stripe_call env (session_New_call params) (Some err) w)
                   | Inr s \<Rightarrow>
                       http_Redirect (URL s) StatusSeeOther
                         (stripe_call env (session_New_call params) None w))))"

text \<open>Lines 181 to 187: the two notifier stubs.\<close>

definition sendConfirmationEmail :: "(string \<times> json) list \<Rightarrow> exec \<Rightarrow> exec" where
  "sendConfirmationEmail sessionObject w =
     Println ''Sending confirmation email...''
       (emit (Call (sendConfirmationEmail_call sessionObject) None) w)"

definition updatePaymentStatus :: "(string \<times> json) list \<Rightarrow> exec \<Rightarrow> exec" where
  "updatePaymentStatus sessionObject w =
     Println ''Updating payment status...''
       (emit (Call (updatePaymentStatus_call sessionObject) None) w)"

definition nil_dereference :: string where
  "nil_dereference = ''runtime error: invalid memory address or nil pointer dereference''"

text \<open>The warning sign that opens two of the messages, as its UTF-8 bytes.\<close>

definition warning_sign :: string where
  "warning_sign = [CHR 0xE2, CHR 0x9A, CHR 0xA0, CHR 0xEF, CHR 0xB8, CHR 0x8F]"

text \<open>Lines 147 to 178: what the handler does with the constructed event.\<close>

definition dispatch :: "env \<Rightarrow> Event \<Rightarrow> exec \<Rightarrow> exec" where
  "dispatch env event w =
     (if Type event = ''checkout.session.completed'' then
        (let w1 = Println ''Checkout Session completed!'' w
         in case Data_Raw event of
              None \<Rightarrow> panic nil_dereference w1
            | Some raw \<Rightarrow>
                (case json_Unmarshal_CheckoutSession env raw of
                   Inl err \<Rightarrow>
                     WriteHeader StatusInternalServerError
                       (emit (Stderr (''Failed to parse session object: '' @ err @ nl))
                         (emit (Call (json_Unmarshal_CheckoutSession_call raw) (Some err)) w1))
                 | Inr sessionObj \<Rightarrow>
                     (let w2 = emit (Call (json_Unmarshal_CheckoutSession_call raw) None) w1
                      in case PaymentIntent sessionObj of
                           None \<Rightarrow> panic nil_dereference w2
                         | Some pi \<Rightarrow>
                             (let w3 = Println (''Payment Intent ID: '' @ PaymentIntentID pi) w2;
                                  w4 = Println (''Payment Status: '' @ PaymentStatus sessionObj) w3;
                                  w5 = Println (''Payment Amount: '' @ FormatInt (AmountTotal sessionObj)) w4;
                                  w6 = Println (''Currency: '' @ Currency sessionObj) w5;
                                  confirmationEmailData =
                                    [(''paymentIntentID'', JString (PaymentIntentID pi)),
                                     (''paymentStatus'', JString (PaymentStatus sessionObj)),
                                     (''paymentAmount'', JInt (AmountTotal sessionObj)),
                                     (''currency'', JString (Currency sessionObj))];
                                  w7 = sendConfirmationEmail confirmationEmailData w6;
                                  w8 = updatePaymentStatus confirmationEmailData w7
                              in writeJSON env
                                   (JObject [(''message'', JString ''Payment success''),
                                             (''success'', JBool True)])
                                   w8))))
      else emit (Stdout (''Received event of type: '' @ Type event @ nl)) w)"

text \<open>Lines 107 to 146, then \<open>dispatch\<close>.\<close>

definition handleWebhook :: "env \<Rightarrow> Request \<Rightarrow> exec \<Rightarrow> exec" where
  "handleWebhook env r w =
     (if Method r \<noteq> ''POST''
      then http_Error (StatusText StatusMethodNotAllowed) StatusMethodNotAllowed w
      else
        (case ReadAll r of
           Inl err \<Rightarrow>
             WriteHeader StatusServiceUnavailable
               (emit (Stderr (''Error reading request body: '' @ err @ nl)) w)
         | Inr payload \<Rightarrow>
             (case json_Unmarshal_Event env payload of
                Inl err \<Rightarrow>
                  WriteHeader StatusBadRequest
                    (emit (Stderr (warning_sign @ ''  Webhook error while parsing basic request. '' @ err @ nl))
                      (emit (Call (json_Unmarshal_Event_call payload) (Some err)) w))
              | Inr _ \<Rightarrow>
                  (let w1 = emit (Call (json_Unmarshal_Event_call payload) None) w;
                       signatureHeader = Values_Get (Header r) ''Stripe-Signature'';
                       w2 = Println signatureHeader w1;
                       secret = Getenv env ''STRIPE_WEBHOOK_SECRET'';
                       w3 = Println secret w2
                   in case webhook_ValidatePayload env payload signatureHeader secret of
                        Some err \<Rightarrow>
                          WriteHeader StatusBadRequest
                            (emit (Stderr (warning_sign @ ''  Webhook error while validating signature. '' @ err @ nl))
                              (emit (Call (ValidatePayload_call payload signatureHeader secret) (Some err)) w3))
                      | None \<Rightarrow>
                          (let w4 = emit (Call (ValidatePayload_call payload signatureHeader secret) None) w3
                           in case webhook_ConstructEvent env payload signatureHeader secret of
                                Inl err \<Rightarrow>
                                  emit (LogPrintf (''webhook.ConstructEvent: '' @ err))
                                    (http_Error err StatusBadRequest
                                      (emit (Call (ConstructEvent_call payload signatureHeader secret) (Some err)) w4))
                              | Inr event \<Rightarrow>
                                  dispatch env event
                                    (emit (Call (ConstructEvent_call payload signatureHeader secret) None) w4))))))"

section \<open>Observations on a run\<close>

text \<open>The Side-Effect Notifier is the pair \<open>sendConfirmationEmail\<close>,
  \<open>updatePaymentStatus\<close>; an invocation is the entry of its call in the trace.\<close>

fun is_sendConfirmationEmail :: "effect \<Rightarrow> bool" where
  "is_sendConfirmationEmail (Call (sendConfirmationEmail_call d) res) = True"
| "is_sendConfirmationEmail e = False"

fun is_updatePaymentStatus :: "effect \<Rightarrow> bool" where
  "is_updatePaymentStatus (Call (updatePaymentStatus_call d) res) = True"
| "is_updatePaymentStatus e = False"

definition sendConfirmationEmail_count :: "effect list \<Rightarrow> nat" where
  "sendConfirmationEmail_count tr = length (filter is_sendConfirmationEmail tr)"

definition updatePaymentStatus_count :: "effect list \<Rightarrow> nat" where
  "updatePaymentStatus_count tr = length (filter is_updatePaymentStatus tr)"

fun is_session_New :: "effect \<Rightarrow> bool" where
  "is_session_New (Call (session_New_call p) res) = True"
| "is_session_New e = False"




text \<open>A message on standard output, on standard error or in the log.\<close>

fun is_logged :: "effect \<Rightarrow> bool" where
  "is_logged (Stdout s) = True"
| "is_logged (Stderr s) = True"
| "is_logged (LogPrintf s) = True"
| "is_logged e = False"



text \<open>A delivery is verified with event \<open>event\<close>: a POST whose body was read, passed
  the basic decoding and the signature check, and from which
  \<^verbatim>\<open>webhook.ConstructEvent\<close> built \<open>event\<close>.\<close>

definition signatureHeader_of :: "Request \<Rightarrow> string" where
  "signatureHeader_of r = Values_Get (Header r) ''Stripe-Signature''"

definition webhook_secret :: "env \<Rightarrow> string" where
  "webhook_secret env = Getenv env ''STRIPE_WEBHOOK_SECRET''"

definition verified :: "env \<Rightarrow> Request \<Rightarrow> Event \<Rightarrow> bool" where
  "verified env r event =
     (Method r = ''POST'' \<and> ReadAll r = Inr (Body r)
      \<and> \<not> isl (json_Unmarshal_Event env (Body r))
      \<and> webhook_ValidatePayload env (Body r) (signatureHeader_of r) (webhook_secret env) = None
      \<and> webhook_ConstructEvent env (Body r) (signatureHeader_of r) (webhook_secret env) = Inr event)"

text \<open>The session object of the event decodes and names a payment intent, so that the
  four values of the payment result can be read.\<close>

definition has_PaymentResult :: "env \<Rightarrow> Event \<Rightarrow> bool" where
  "has_PaymentResult env event =
     (case Data_Raw event of
        None \<Rightarrow> False
      | Some raw \<Rightarrow>
          (case json_Unmarshal_CheckoutSession env raw of
             Inl err \<Rightarrow> False
           | Inr sessionObj \<Rightarrow> PaymentIntent sessionObj \<noteq> None))"

text \<open>The error body of the interface description,
  \<^verbatim>\<open>{"error":{"message":"<text>"}}\<close>, in the compact form of \<^verbatim>\<open>encoding/json\<close>
  with the newline of \<^verbatim>\<open>Encode\<close>.\<close>

definition ErrorResponse_prefix :: string where
  "ErrorResponse_prefix = ''{'' @ dq @ ''error'' @ dq @ '':{'' @ dq @ ''message'' @ dq @ '':''"

definition ErrorResponse_shape :: "string \<Rightarrow> bool" where
  "ErrorResponse_shape b =
     (prefix ErrorResponse_prefix b \<and> suffix (''}}'' @ nl) b
      \<and> length ErrorResponse_prefix + 3 \<le> length b)"

text \<open>The four handlers \<open>main\<close> registers beside the static files.\<close>

definition handlers :: "(env \<Rightarrow> Request \<Rightarrow> exec \<Rightarrow> exec) list" where
  "handlers = [handleConfig, handleCheckoutSession, handleCreateCheckoutSession, handleWebhook]"

text \<open>A failure is reported when the client sees an error status or a message is
  logged; net/http logs a panic it recovers from.\<close>

fun is_panic :: "string option \<Rightarrow> bool" where
  "is_panic None = False"
| "is_panic (Some msg) = True"

definition reported :: "exec \<Rightarrow> bool" where
  "reported d = (final_status d \<ge> 400 \<or> list_ex is_logged (trace d) \<or> is_panic (panicked d))"

text \<open>A quantity is numeric when it is an optional sign and at least one digit.\<close>

definition numeric :: "string \<Rightarrow> bool" where
  "numeric q =
     (q \<noteq> [] \<and>
      (let s1 = (if hd q = CHR ''+'' \<or> hd q = CHR ''-'' then tl q else q)
       in s1 \<noteq> [] \<and> list_all is_digit s1))"

text \<open>The parameters the handler builds at lines 88 to 98 for a quantity, and the error
  of a result.\<close>

definition session_params :: "env \<Rightarrow> int \<Rightarrow> CheckoutSessionParams" where
  "session_params env quantity =
     \<lparr>SuccessURL = Getenv env ''DOMAIN'' @ ''/html/success.html?session_id={CHECKOUT_SESSION_ID}'',
      CancelURL = Getenv env ''DOMAIN'' @ ''/canceled.html'',
      Mode = ''payment'',
      LineItems = [\<lparr>Quantity = quantity, LineItemPrice = Getenv env ''PRICE''\<rparr>]\<rparr>"

definition error_of :: "string + 'a \<Rightarrow> string option" where
  "error_of res = (case res of Inl err \<Rightarrow> Some err | Inr v \<Rightarrow> None)"

text \<open>The integer a numeric quantity denotes, read from the digits, for comparison with
  what \<open>ParseInt\<close> computes; and the range of \<^verbatim>\<open>int64\<close>.\<close>

definition digits_value :: "string \<Rightarrow> int" where
  "digits_value s = foldl (\<lambda>n c. n * 10 + ((of_char c :: int) - 48)) 0 s"

definition quantity_value :: "string \<Rightarrow> int" where
  "quantity_value q =
     (if hd q = CHR ''-'' then - digits_value (tl q)
      else if hd q = CHR ''+'' then digits_value (tl q)
      else digits_value q)"

definition in_int64 :: "int \<Rightarrow> bool" where
  "in_int64 v = (- (2 ^ 63) \<le> v \<and> v \<le> 2 ^ 63 - 1)"

section \<open>An example deployment\<close>

text \<open>
  A concrete environment for the examples: the webhook secret is \<open>whsec_S2\<close>, the price
  \<open>price_1\<close> costs 2000 cents, two events have been signed by Stripe with that secret,
  and the API refuses a line item whose quantity is below 1. The string encoders are the identity between double quotes, which is what
  the libraries do on the letters, digits and underscores used here.
\<close>

definition quoted :: "string \<Rightarrow> string" where
  "quoted s = dq @ s @ dq"

definition payload_completed :: bytes where
  "payload_completed =
     ''{'' @ quoted ''id'' @ '':'' @ quoted ''evt_1'' @ '','' @ quoted ''type'' @ '':''
       @ quoted ''checkout.session.completed'' @ '','' @ quoted ''data'' @ '':{''
       @ quoted ''object'' @ '':{'' @ quoted ''payment_intent'' @ '':'' @ quoted ''pi_1'' @ ''}}}''"

definition payload_created :: bytes where
  "payload_created =
     ''{'' @ quoted ''id'' @ '':'' @ quoted ''evt_2'' @ '','' @ quoted ''type'' @ '':''
       @ quoted ''customer.created'' @ '','' @ quoted ''data'' @ '':{''
       @ quoted ''object'' @ '':{}}}''"

definition event_completed :: Event where
  "event_completed =
     \<lparr>ID = ''evt_1'', Type = ''checkout.session.completed'',
      Data_Raw = Some (''{'' @ quoted ''payment_intent'' @ '':'' @ quoted ''pi_1'' @ ''}'')\<rparr>"

definition event_created :: Event where
  "event_created = \<lparr>ID = ''evt_2'', Type = ''customer.created'', Data_Raw = Some ''{}''\<rparr>"

definition session_paid :: CheckoutSession where
  "session_paid =
     \<lparr>URL = [], PaymentIntent = Some \<lparr>PaymentIntentID = ''pi_1''\<rparr>, PaymentStatus = ''paid'',
      AmountTotal = 2000, Currency = ''usd''\<rparr>"

definition session_empty :: CheckoutSession where
  "session_empty =
     \<lparr>URL = [], PaymentIntent = None, PaymentStatus = [], AmountTotal = 0, Currency = []\<rparr>"

definition decode_event :: "bytes \<Rightarrow> string + Event" where
  "decode_event p =
     (if p = payload_completed then Inr event_completed
      else if p = payload_created then Inr event_created
      else Inl ''unexpected end of JSON input'')"

definition signed_S2 :: "bytes \<Rightarrow> string \<Rightarrow> string \<Rightarrow> bool" where
  "signed_S2 p h s = (h = ''t=1,v1=S2'' \<and> s = ''whsec_S2'')"

definition env0 :: env where
  "env0 =
     \<lparr>Getenv = (\<lambda>k. if k = ''STRIPE_SECRET_KEY'' then ''sk_test_51''
                   else if k = ''STRIPE_WEBHOOK_SECRET'' then ''whsec_S2''
                   else if k = ''PRICE'' then ''price_1''
                   else if k = ''DOMAIN'' then ''http://localhost:4242''
                   else []),
      price_Get = (\<lambda>i. (\<lparr>UnitAmount = 2000, PriceCurrency = ''usd''\<rparr>, None)),
      session_Get = (\<lambda>i. (session_paid, None)),
      session_New =
        (\<lambda>p. if list_all (\<lambda>li. 1 \<le> Quantity li) (LineItems p)
             then Inr (session_empty\<lparr>URL := ''https://checkout.stripe.com/pay/cs_test_1''\<rparr>)
             else Inl ''This value must be greater than or equal to 1.''),
      stripe_logger =
        (\<lambda>err. case err of None \<Rightarrow> []
                | Some e \<Rightarrow> [''[ERROR] Request failed with error: '' @ e @ nl]),
      json_Unmarshal_Event = decode_event,
      json_Unmarshal_CheckoutSession = (\<lambda>raw. Inr session_paid),
      webhook_ValidatePayload =
        (\<lambda>p h s. if signed_S2 p h s then None else Some ''webhook had no valid signature''),
      webhook_ConstructEvent =
        (\<lambda>p h s. if signed_S2 p h s then decode_event p else Inl ''webhook had no valid signature''),
      json_string = quoted,
      json_Encode_CheckoutSession = (\<lambda>s. Inr ''{}''),
      io_Copy_err = (\<lambda>buf. None),
      strconv_Quote = quoted\<rparr>"

text \<open>The same deployment while the Stripe API cannot be reached.\<close>

definition env_down :: env where
  "env_down =
     env0\<lparr>price_Get := (\<lambda>i. (\<lparr>UnitAmount = 0, PriceCurrency = []\<rparr>, Some ''connection refused'')),
          session_Get := (\<lambda>i. (session_empty, Some ''connection refused''))\<rparr>"

definition request0 :: Request where
  "request0 =
     \<lparr>Method = ''GET'', Query = Map.empty, PostForm = Map.empty, Header = Map.empty,
      Body = [], BodyErr = None, ParseFormErr = None\<rparr>"

definition delivery :: "bytes \<Rightarrow> string \<Rightarrow> Request" where
  "delivery p h = request0\<lparr>Method := ''POST'', Header := [''Stripe-Signature'' \<mapsto> h], Body := p\<rparr>"

text \<open>A body of one byte more than the handler reads.\<close>

definition oversized :: bytes where
  "oversized = replicate 65537 (CHR ''x'')"

definition purchase :: "string \<Rightarrow> Request" where
  "purchase q = request0\<lparr>Method := ''POST'', PostForm := [''quantity'' \<mapsto> q]\<rparr>"

text \<open>A purchase with the form body \<^verbatim>\<open>quantity=2&x=%zz\<close>.\<close>

definition bad_form_purchase :: Request where
  "bad_form_purchase =
     (purchase ''2'')\<lparr>ParseFormErr := Some (''invalid URL escape '' @ dq @ ''%zz'' @ dq)\<rparr>"

section \<open>Properties of the webhook handler\<close>

lemmas exec_defs = emit_def Println_def panic_def Header_Set_def WriteHeader_def Write_def
  http_Error_def http_Redirect_def final_status_def start_def

text \<open>A verified delivery runs the five steps before dispatch.\<close>

lemma handleWebhook_verified:
  assumes "verified env r event"
  shows "handleWebhook env r w =
           dispatch env event
             (emit (Call (ConstructEvent_call (Body r) (signatureHeader_of r) (webhook_secret env)) None)
               (emit (Call (ValidatePayload_call (Body r) (signatureHeader_of r) (webhook_secret env)) None)
                 (Println (webhook_secret env)
                   (Println (signatureHeader_of r)
                     (emit (Call (json_Unmarshal_Event_call (Body r)) None) w)))))"
proof -
  from assms obtain e0 where e0: "json_Unmarshal_Event env (Body r) = Inr e0"
    by (cases "json_Unmarshal_Event env (Body r)") (auto simp: verified_def)
  from assms e0 show ?thesis
    by (simp add: verified_def handleWebhook_def Let_def signatureHeader_of_def webhook_secret_def)
qed

lemma dispatch_other:
  assumes "Type event \<noteq> ''checkout.session.completed''"
  shows "dispatch env event w = emit (Stdout (''Received event of type: '' @ Type event @ nl)) w"
  using assms by (simp add: dispatch_def)

lemma count_append:
  "sendConfirmationEmail_count (xs @ ys) = sendConfirmationEmail_count xs + sendConfirmationEmail_count ys"
  "updatePaymentStatus_count (xs @ ys) = updatePaymentStatus_count xs + updatePaymentStatus_count ys"
  by (simp_all add: sendConfirmationEmail_count_def updatePaymentStatus_count_def)

lemma count_Nil:
  "sendConfirmationEmail_count [] = 0" "updatePaymentStatus_count [] = 0"
  by (simp_all add: sendConfirmationEmail_count_def updatePaymentStatus_count_def)

lemma count_Cons:
  "sendConfirmationEmail_count (e # es) = (if is_sendConfirmationEmail e then 1 else 0) + sendConfirmationEmail_count es"
  "updatePaymentStatus_count (e # es) = (if is_updatePaymentStatus e then 1 else 0) + updatePaymentStatus_count es"
  by (simp_all add: sendConfirmationEmail_count_def updatePaymentStatus_count_def)

lemmas count_simps = count_append count_Nil count_Cons

lemma start_sel:
  "trace start = []" "status start = None" "panicked start = None" "body start = []"
  "header start = Map.empty"
  by (simp_all add: start_def)

lemma emit_sel:
  "trace (emit e w) = trace w @ [e]" "status (emit e w) = status w"
  "panicked (emit e w) = panicked w" "body (emit e w) = body w" "header (emit e w) = header w"
  by (simp_all add: emit_def)

lemma stripe_call_sel:
  "trace (stripe_call env c err w) = trace w @ map Stderr (stripe_logger env err) @ [Call c err]"
  "status (stripe_call env c err w) = status w" "panicked (stripe_call env c err w) = panicked w"
  "body (stripe_call env c err w) = body w" "header (stripe_call env c err w) = header w"
  by (simp_all add: stripe_call_def emit_def emit_all_def)

lemma Println_sel:
  "trace (Println s w) = trace w @ [Stdout (s @ nl)]" "status (Println s w) = status w"
  "panicked (Println s w) = panicked w" "body (Println s w) = body w"
  "header (Println s w) = header w"
  by (simp_all add: Println_def emit_def)

lemma notifier_sel:
  "trace (sendConfirmationEmail d w) =
     trace w @ [Call (sendConfirmationEmail_call d) None, Stdout (''Sending confirmation email...'' @ nl)]"
  "trace (updatePaymentStatus d w) =
     trace w @ [Call (updatePaymentStatus_call d) None, Stdout (''Updating payment status...'' @ nl)]"
  "status (sendConfirmationEmail d w) = status w" "status (updatePaymentStatus d w) = status w"
  "panicked (sendConfirmationEmail d w) = panicked w" "panicked (updatePaymentStatus d w) = panicked w"
  by (simp_all add: sendConfirmationEmail_def updatePaymentStatus_def Println_sel emit_sel)

lemma writeJSON_counts:
  "sendConfirmationEmail_count (trace (writeJSON env v w)) = sendConfirmationEmail_count (trace w)"
  "updatePaymentStatus_count (trace (writeJSON env v w)) = updatePaymentStatus_count (trace w)"
  "panicked (writeJSON env v w) = panicked w"
  by (simp_all add: writeJSON_def exec_defs Let_def count_simps split: sum.splits option.splits)

lemma success_object_encodes:
  "json_Encode env (JObject [(''message'', JString ''Payment success''), (''success'', JBool True)])
     = Inr (''{'' @ dq @ ''message'' @ dq @ '':'' @ json_string env ''Payment success'' @ '',''
            @ dq @ ''success'' @ dq @ '':true}'' @ nl)"
  by (simp add: json_Encode_def)

lemma writeJSON_success_status:
  assumes "status w = None"
  shows "final_status (writeJSON env (JObject [(''message'', JString ''Payment success''), (''success'', JBool True)]) w) = 200"
  using assms
  by (simp add: writeJSON_def success_object_encodes exec_defs Let_def split: option.splits)

lemma dispatch_completed:
  assumes "Type event = ''checkout.session.completed''" and "has_PaymentResult env event"
  shows "sendConfirmationEmail_count (trace (dispatch env event w)) = sendConfirmationEmail_count (trace w) + 1"
    and "updatePaymentStatus_count (trace (dispatch env event w)) = updatePaymentStatus_count (trace w) + 1"
    and "panicked (dispatch env event w) = panicked w"
    and "status w = None \<Longrightarrow> final_status (dispatch env event w) = 200"
proof -
  from assms(2) obtain raw sessionObj pi where
    raw: "Data_Raw event = Some raw"
    and so: "json_Unmarshal_CheckoutSession env raw = Inr sessionObj"
    and pi: "PaymentIntent sessionObj = Some pi"
    by (auto simp: has_PaymentResult_def split: option.splits sum.splits)
  show "sendConfirmationEmail_count (trace (dispatch env event w)) = sendConfirmationEmail_count (trace w) + 1"
    using assms(1) raw so pi
    by (simp add: dispatch_def Let_def writeJSON_counts notifier_sel Println_sel emit_sel count_simps)
  show "updatePaymentStatus_count (trace (dispatch env event w)) = updatePaymentStatus_count (trace w) + 1"
    using assms(1) raw so pi
    by (simp add: dispatch_def Let_def writeJSON_counts notifier_sel Println_sel emit_sel count_simps)
  show "panicked (dispatch env event w) = panicked w"
    using assms(1) raw so pi
    by (simp add: dispatch_def Let_def writeJSON_counts notifier_sel Println_sel emit_sel)
  show "status w = None \<Longrightarrow> final_status (dispatch env event w) = 200"
    using assms(1) raw so pi
    by (simp add: dispatch_def Let_def writeJSON_success_status notifier_sel Println_sel emit_sel)
qed

lemma verified_completed_counts:
  assumes "verified env r event" and "Type event = ''checkout.session.completed''"
    and "has_PaymentResult env event"
  shows "sendConfirmationEmail_count (trace (handleWebhook env r start)) = 1"
    and "updatePaymentStatus_count (trace (handleWebhook env r start)) = 1"
    and "final_status (handleWebhook env r start) = 200"
    and "panicked (handleWebhook env r start) = None"
  using assms
  by (simp_all add: handleWebhook_verified dispatch_completed Println_sel emit_sel count_simps start_sel)

lemma example_verified:
  "verified env0 (delivery payload_completed ''t=1,v1=S2'') event_completed"
  by (simp add: verified_def ReadAll_def MaxBodyBytes_def signatureHeader_of_def webhook_secret_def
      Values_Get_def env0_def delivery_def request0_def decode_event_def signed_S2_def
      payload_completed_def quoted_def dq_def)

lemma example_has_PaymentResult: "has_PaymentResult env0 event_completed"
  by (simp add: has_PaymentResult_def env0_def event_completed_def session_paid_def)


lemma example_Type: "Type event_completed = ''checkout.session.completed''"
  by (simp add: event_completed_def)

text \<open>Claim C1, as the code has it. For every pair of webhook deliveries carrying the same
  verified event id with type \<^verbatim>\<open>checkout.session.completed\<close>, whose session object
  decodes and names a payment intent, the notifier is invoked once by each delivery, twice
  in total: nothing records the event ids already seen, and the second delivery invokes
  \<open>sendConfirmationEmail\<close> and \<open>updatePaymentStatus\<close> again. Both deliveries end
  with status 200.\<close>

theorem redelivery_notifies_again:
  assumes "verified env r1 e1" and "verified env r2 e2" and "ID e1 = ID e2"
    and "Type e1 = ''checkout.session.completed''" and "Type e2 = ''checkout.session.completed''"
    and "has_PaymentResult env e1" and "has_PaymentResult env e2"
  shows "sendConfirmationEmail_count (trace (handleWebhook env r1 start) @ trace (handleWebhook env r2 start)) = 2
       \<and> updatePaymentStatus_count (trace (handleWebhook env r1 start) @ trace (handleWebhook env r2 start)) = 2
       \<and> sendConfirmationEmail_count (trace (handleWebhook env r2 start)) = 1
       \<and> updatePaymentStatus_count (trace (handleWebhook env r2 start)) = 1
       \<and> final_status (handleWebhook env r1 start) = 200
       \<and> final_status (handleWebhook env r2 start) = 200
       \<and> panicked (handleWebhook env r1 start) = None
       \<and> panicked (handleWebhook env r2 start) = None"
  using verified_completed_counts [OF assms(1) assms(4) assms(6)]
    verified_completed_counts [OF assms(2) assms(5) assms(7)]
  by (simp add: count_append)

text \<open>The premises of C1 hold for the example delivery sent twice.\<close>

theorem redelivery_notifies_again_witness:
  "verified env0 (delivery payload_completed ''t=1,v1=S2'') event_completed
   \<and> ID event_completed = ID event_completed
   \<and> Type event_completed = ''checkout.session.completed''
   \<and> has_PaymentResult env0 event_completed
   \<and> sendConfirmationEmail_count
        (trace (handleWebhook env0 (delivery payload_completed ''t=1,v1=S2'') start)
         @ trace (handleWebhook env0 (delivery payload_completed ''t=1,v1=S2'') start)) = 2
   \<and> updatePaymentStatus_count
        (trace (handleWebhook env0 (delivery payload_completed ''t=1,v1=S2'') start)
         @ trace (handleWebhook env0 (delivery payload_completed ''t=1,v1=S2'') start)) = 2
   \<and> final_status (handleWebhook env0 (delivery payload_completed ''t=1,v1=S2'') start) = 200"
  using redelivery_notifies_again [OF example_verified example_verified refl example_Type example_Type
      example_has_PaymentResult example_has_PaymentResult]
    example_verified example_has_PaymentResult example_Type
  by simp

text \<open>Claim C1 as stated fails: the example delivery sent twice does not invoke
  \<open>sendConfirmationEmail\<close> exactly once in total, and the second delivery does invoke it.\<close>

theorem redelivery_counterexample:
  "verified env0 (delivery payload_completed ''t=1,v1=S2'') event_completed
   \<and> Type event_completed = ''checkout.session.completed''
   \<and> sendConfirmationEmail_count
        (trace (handleWebhook env0 (delivery payload_completed ''t=1,v1=S2'') start)
         @ trace (handleWebhook env0 (delivery payload_completed ''t=1,v1=S2'') start)) \<noteq> 1
   \<and> sendConfirmationEmail_count
        (trace (handleWebhook env0 (delivery payload_completed ''t=1,v1=S2'') start)) \<noteq> 0"
  using verified_completed_counts [OF example_verified example_Type example_has_PaymentResult]
    example_verified example_Type
  by (simp add: count_append)

text \<open>Claim C9. For every verified webhook event whose type is not
  \<^verbatim>\<open>checkout.session.completed\<close> the delivery does not fail: the answer is an empty 200,
  the handler does not panic, the last thing it does is print the event type on standard
  output, and the notifier is not invoked.\<close>

theorem other_event_types_accepted:
  assumes "verified env r event" and "Type event \<noteq> ''checkout.session.completed''"
  shows "final_status (handleWebhook env r start) = 200
       \<and> panicked (handleWebhook env r start) = None
       \<and> body (handleWebhook env r start) = []
       \<and> last (trace (handleWebhook env r start)) = Stdout (''Received event of type: '' @ Type event @ nl)
       \<and> sendConfirmationEmail_count (trace (handleWebhook env r start)) = 0
       \<and> updatePaymentStatus_count (trace (handleWebhook env r start)) = 0"
  using assms
  by (simp add: handleWebhook_verified dispatch_other Println_sel emit_sel start_sel count_simps
      final_status_def)

lemma example_created_verified:
  "verified env0 (delivery payload_created ''t=1,v1=S2'') event_created"
  by (simp add: verified_def ReadAll_def MaxBodyBytes_def signatureHeader_of_def webhook_secret_def
      Values_Get_def env0_def delivery_def request0_def decode_event_def signed_S2_def
      payload_completed_def payload_created_def quoted_def dq_def)

text \<open>The premises of C9 hold for the example \<^verbatim>\<open>customer.created\<close> delivery.\<close>

theorem other_event_types_accepted_witness:
  "verified env0 (delivery payload_created ''t=1,v1=S2'') event_created
   \<and> Type event_created \<noteq> ''checkout.session.completed''
   \<and> final_status (handleWebhook env0 (delivery payload_created ''t=1,v1=S2'') start) = 200
   \<and> last (trace (handleWebhook env0 (delivery payload_created ''t=1,v1=S2'') start))
       = Stdout (''Received event of type: customer.created'' @ nl)
   \<and> sendConfirmationEmail_count (trace (handleWebhook env0 (delivery payload_created ''t=1,v1=S2'') start)) = 0"
proof -
  have t: "Type event_created \<noteq> ''checkout.session.completed''"
    by (simp add: event_created_def)
  show ?thesis
    using other_event_types_accepted [OF example_created_verified t] example_created_verified t
    by (simp add: event_created_def)
qed

text \<open>A failed signature check.\<close>

lemma handleWebhook_signature_failure:
  assumes "Method r = ''POST''" and "ReadAll r = Inr payload"
    and "json_Unmarshal_Event env payload = Inr e0"
    and "webhook_ValidatePayload env payload (signatureHeader_of r) (webhook_secret env) = Some err"
  shows "handleWebhook env r w =
           WriteHeader StatusBadRequest
             (emit (Stderr (warning_sign @ ''  Webhook error while validating signature. '' @ err @ nl))
               (emit (Call (ValidatePayload_call payload (signatureHeader_of r) (webhook_secret env)) (Some err))
                 (Println (webhook_secret env)
                   (Println (signatureHeader_of r)
                     (emit (Call (json_Unmarshal_Event_call payload) None) w)))))"
  using assms
  by (simp add: handleWebhook_def Let_def signatureHeader_of_def webhook_secret_def)

lemma handleWebhook_decode_failure:
  assumes "Method r = ''POST''" and "ReadAll r = Inr payload"
    and "json_Unmarshal_Event env payload = Inl err"
  shows "handleWebhook env r w =
           WriteHeader StatusBadRequest
             (emit (Stderr (warning_sign @ ''  Webhook error while parsing basic request. '' @ err @ nl))
               (emit (Call (json_Unmarshal_Event_call payload) (Some err)) w))"
  using assms by (simp add: handleWebhook_def)

lemma WriteHeader_sel:
  "trace (WriteHeader c w) = trace w" "panicked (WriteHeader c w) = panicked w"
  "body (WriteHeader c w) = body w"
  "status w = None \<Longrightarrow> final_status (WriteHeader c w) = c"
  by (simp_all add: WriteHeader_def final_status_def)

lemma handleWebhook_read_failure:
  assumes "Method r = ''POST''" and "ReadAll r = Inl err"
  shows "trace (handleWebhook env r start) = [Stderr (''Error reading request body: '' @ err @ nl)]"
    and "final_status (handleWebhook env r start) = 503"
    and "body (handleWebhook env r start) = []"
    and "panicked (handleWebhook env r start) = None"
  using assms
  by (simp_all add: handleWebhook_def WriteHeader_sel emit_sel start_sel StatusServiceUnavailable_def)

text \<open>Claim C8, as the code has it. For every POST delivery whose body was read (at most
  65536 bytes, no read error) and whose payload does not verify against the configured
  webhook secret (it was signed with another secret, so \<^verbatim>\<open>webhook.ValidatePayload\<close>
  returns an error), the response status is 400 and neither \<open>sendConfirmationEmail\<close> nor
  \<open>updatePaymentStatus\<close> is invoked. A POST delivery whose body cannot be read is
  answered 503 before the signature is looked at, whatever its signature, and the notifier
  is not invoked either.\<close>

theorem wrong_secret_rejected:
  "(Method r = ''POST'' \<and> ReadAll r = Inr payload
      \<and> webhook_ValidatePayload env payload (signatureHeader_of r) (webhook_secret env) = Some err
      \<longrightarrow> final_status (handleWebhook env r start) = 400
          \<and> sendConfirmationEmail_count (trace (handleWebhook env r start)) = 0
          \<and> updatePaymentStatus_count (trace (handleWebhook env r start)) = 0
          \<and> panicked (handleWebhook env r start) = None)
   \<and> (Method r = ''POST'' \<and> ReadAll r = Inl rerr
      \<longrightarrow> final_status (handleWebhook env r start) = 503
          \<and> trace (handleWebhook env r start) = [Stderr (''Error reading request body: '' @ rerr @ nl)]
          \<and> sendConfirmationEmail_count (trace (handleWebhook env r start)) = 0
          \<and> updatePaymentStatus_count (trace (handleWebhook env r start)) = 0
          \<and> panicked (handleWebhook env r start) = None)"
proof -
  have a: "final_status (handleWebhook env r start) = 400
          \<and> sendConfirmationEmail_count (trace (handleWebhook env r start)) = 0
          \<and> updatePaymentStatus_count (trace (handleWebhook env r start)) = 0
          \<and> panicked (handleWebhook env r start) = None"
    if h: "Method r = ''POST'' \<and> ReadAll r = Inr payload
      \<and> webhook_ValidatePayload env payload (signatureHeader_of r) (webhook_secret env) = Some err"
  proof -
    from h have post: "Method r = ''POST''" and read: "ReadAll r = Inr payload"
      and bad: "webhook_ValidatePayload env payload (signatureHeader_of r) (webhook_secret env) = Some err"
      by simp_all
    show ?thesis
    proof (cases "json_Unmarshal_Event env payload")
      case (Inl e)
      show ?thesis
        by (simp add: handleWebhook_decode_failure [OF post read Inl] WriteHeader_sel emit_sel
            start_sel count_simps StatusBadRequest_def)
    next
      case (Inr e0)
      show ?thesis
        by (simp add: handleWebhook_signature_failure [OF post read Inr bad] WriteHeader_sel
            emit_sel Println_sel start_sel count_simps StatusBadRequest_def)
    qed
  qed
  have b: "final_status (handleWebhook env r start) = 503
          \<and> trace (handleWebhook env r start) = [Stderr (''Error reading request body: '' @ rerr @ nl)]
          \<and> sendConfirmationEmail_count (trace (handleWebhook env r start)) = 0
          \<and> updatePaymentStatus_count (trace (handleWebhook env r start)) = 0
          \<and> panicked (handleWebhook env r start) = None"
    if h: "Method r = ''POST'' \<and> ReadAll r = Inl rerr"
    using h by (simp add: handleWebhook_read_failure count_simps)
  from a b show ?thesis by blast
qed

lemma example_forged:
  "Method (delivery payload_completed ''t=1,v1=S1'') = ''POST''"
  "ReadAll (delivery payload_completed ''t=1,v1=S1'') = Inr payload_completed"
  "json_Unmarshal_Event env0 payload_completed = Inr event_completed"
  "signatureHeader_of (delivery payload_completed ''t=1,v1=S1'') = ''t=1,v1=S1''"
  "webhook_secret env0 = ''whsec_S2''"
  "webhook_ValidatePayload env0 payload_completed ''t=1,v1=S1'' ''whsec_S2''
     = Some ''webhook had no valid signature''"
  by (simp_all add: ReadAll_def MaxBodyBytes_def signatureHeader_of_def webhook_secret_def
      Values_Get_def env0_def delivery_def request0_def decode_event_def signed_S2_def
      payload_completed_def quoted_def dq_def)

lemma example_oversized:
  "Method (delivery oversized ''t=1,v1=S1'') = ''POST''"
  "ReadAll (delivery oversized ''t=1,v1=S1'') = Inl ''http: request body too large''"
  "length (Body (delivery oversized ''t=1,v1=S1'')) = 65537"
  "signatureHeader_of (delivery oversized ''t=1,v1=S1'') = ''t=1,v1=S1''"
  "webhook_ValidatePayload env0 oversized ''t=1,v1=S1'' ''whsec_S2''
     = Some ''webhook had no valid signature''"
  by (simp_all add: ReadAll_def MaxBodyBytes_def signatureHeader_of_def Values_Get_def env0_def
      delivery_def request0_def signed_S2_def oversized_def)

text \<open>The premises of C8 hold for the example payload with a signature made for secret S1,
  and for a body of 65537 bytes.\<close>

theorem wrong_secret_rejected_witness:
  "Method (delivery payload_completed ''t=1,v1=S1'') = ''POST''
   \<and> ReadAll (delivery payload_completed ''t=1,v1=S1'') = Inr payload_completed
   \<and> webhook_ValidatePayload env0 payload_completed
        (signatureHeader_of (delivery payload_completed ''t=1,v1=S1'')) (webhook_secret env0)
        = Some ''webhook had no valid signature''
   \<and> final_status (handleWebhook env0 (delivery payload_completed ''t=1,v1=S1'') start) = 400
   \<and> sendConfirmationEmail_count (trace (handleWebhook env0 (delivery payload_completed ''t=1,v1=S1'') start)) = 0
   \<and> updatePaymentStatus_count (trace (handleWebhook env0 (delivery payload_completed ''t=1,v1=S1'') start)) = 0
   \<and> Method (delivery oversized ''t=1,v1=S1'') = ''POST''
   \<and> ReadAll (delivery oversized ''t=1,v1=S1'') = Inl ''http: request body too large''
   \<and> final_status (handleWebhook env0 (delivery oversized ''t=1,v1=S1'') start) = 503
   \<and> sendConfirmationEmail_count (trace (handleWebhook env0 (delivery oversized ''t=1,v1=S1'') start)) = 0"
  using wrong_secret_rejected [of "delivery payload_completed ''t=1,v1=S1''" payload_completed env0
      "''webhook had no valid signature''" "''x''"]
    wrong_secret_rejected [of "delivery oversized ''t=1,v1=S1''" oversized env0
      "''x''" "''http: request body too large''"]
  by (simp add: example_forged example_oversized count_simps)

text \<open>Claim C8 as stated fails: a POST delivery of 65537 bytes signed for secret S1 is
  answered 503, not 400; the body is refused before the signature is checked.\<close>

theorem oversized_wrong_secret_counterexample:
  "Method (delivery oversized ''t=1,v1=S1'') = ''POST''
   \<and> length (Body (delivery oversized ''t=1,v1=S1'')) = 65537
   \<and> webhook_ValidatePayload env0 (Body (delivery oversized ''t=1,v1=S1''))
        (signatureHeader_of (delivery oversized ''t=1,v1=S1'')) (webhook_secret env0)
        = Some ''webhook had no valid signature''
   \<and> final_status (handleWebhook env0 (delivery oversized ''t=1,v1=S1'') start) = 503
   \<and> final_status (handleWebhook env0 (delivery oversized ''t=1,v1=S1'') start) \<noteq> 400"
proof -
  have b: "Body (delivery oversized ''t=1,v1=S1'') = oversized"
    by (simp add: delivery_def request0_def)
  have len: "length oversized = 65537"
    by (simp add: oversized_def)
  from handleWebhook_read_failure(2) [OF example_oversized(1) example_oversized(2), of env0]
  show ?thesis
    by (simp add: example_oversized example_forged b len)
qed

text \<open>Every step only extends the trace.\<close>

lemma writeJSON_extends: "prefix (trace w) (trace (writeJSON env v w))"
  by (simp add: writeJSON_def exec_defs Let_def split: sum.splits option.splits)

lemma http_Error_sel:
  "trace (http_Error msg c w) = trace w" "panicked (http_Error msg c w) = panicked w"
  "status w = None \<Longrightarrow> final_status (http_Error msg c w) = c"
  by (simp_all add: exec_defs Let_def)

lemma dispatch_extends: "prefix (trace w) (trace (dispatch env event w))"
proof -
  have step: "\<And>w0 v. prefix (trace w @ [Stdout (''Checkout Session completed!'' @ nl)]) (trace w0)
      \<Longrightarrow> prefix (trace w) (trace (writeJSON env v w0))"
    by (meson append_prefixD prefix_order.trans writeJSON_extends)
  show ?thesis
    by (auto simp add: dispatch_def Let_def Println_sel emit_sel WriteHeader_sel notifier_sel panic_def
        intro!: step split: option.splits sum.splits)
qed

lemma handleWebhook_construct_failure:
  assumes "Method r = ''POST''" and "ReadAll r = Inr payload"
    and "json_Unmarshal_Event env payload = Inr e0"
    and "webhook_ValidatePayload env payload (signatureHeader_of r) (webhook_secret env) = None"
    and "webhook_ConstructEvent env payload (signatureHeader_of r) (webhook_secret env) = Inl err"
  shows "handleWebhook env r w =
           emit (LogPrintf (''webhook.ConstructEvent: '' @ err))
             (http_Error err StatusBadRequest
               (emit (Call (ConstructEvent_call payload (signatureHeader_of r) (webhook_secret env)) (Some err))
                 (emit (Call (ValidatePayload_call payload (signatureHeader_of r) (webhook_secret env)) None)
                   (Println (webhook_secret env)
                     (Println (signatureHeader_of r)
                       (emit (Call (json_Unmarshal_Event_call payload) None) w))))))"
  using assms
  by (simp add: handleWebhook_def Let_def signatureHeader_of_def webhook_secret_def)

lemma handleWebhook_constructed:
  assumes "Method r = ''POST''" and "ReadAll r = Inr payload"
    and "json_Unmarshal_Event env payload = Inr e0"
    and "webhook_ValidatePayload env payload (signatureHeader_of r) (webhook_secret env) = None"
    and "webhook_ConstructEvent env payload (signatureHeader_of r) (webhook_secret env) = Inr event"
  shows "handleWebhook env r w =
           dispatch env event
             (emit (Call (ConstructEvent_call payload (signatureHeader_of r) (webhook_secret env)) None)
               (emit (Call (ValidatePayload_call payload (signatureHeader_of r) (webhook_secret env)) None)
                 (Println (webhook_secret env)
                   (Println (signatureHeader_of r)
                     (emit (Call (json_Unmarshal_Event_call payload) None) w)))))"
  using assms
  by (simp add: handleWebhook_def Let_def signatureHeader_of_def webhook_secret_def)

text \<open>The first four entries of the trace of a delivery that passed the basic decoding.\<close>

lemma handleWebhook_opening:
  assumes "Method r = ''POST''" and "ReadAll r = Inr payload"
    and "json_Unmarshal_Event env payload = Inr e0"
  shows "\<exists>rest. trace (handleWebhook env r start) =
           [Call (json_Unmarshal_Event_call payload) None,
            Stdout (signatureHeader_of r @ nl),
            Stdout (webhook_secret env @ nl),
            Call (ValidatePayload_call payload (signatureHeader_of r) (webhook_secret env))
              (webhook_ValidatePayload env payload (signatureHeader_of r) (webhook_secret env))] @ rest"
proof (cases "webhook_ValidatePayload env payload (signatureHeader_of r) (webhook_secret env)")
  case (Some err)
  show ?thesis
    by (simp add: handleWebhook_signature_failure [OF assms Some] Some WriteHeader_sel emit_sel
        Println_sel start_sel)
next
  case None
  show ?thesis
  proof (cases "webhook_ConstructEvent env payload (signatureHeader_of r) (webhook_secret env)")
    case (Inl err)
    show ?thesis
      by (simp add: handleWebhook_construct_failure [OF assms None Inl] None http_Error_sel emit_sel
          Println_sel start_sel)
  next
    case (Inr event)
    let ?w = "emit (Call (ConstructEvent_call payload (signatureHeader_of r) (webhook_secret env)) None)
               (emit (Call (ValidatePayload_call payload (signatureHeader_of r) (webhook_secret env)) None)
                 (Println (webhook_secret env)
                   (Println (signatureHeader_of r)
                     (emit (Call (json_Unmarshal_Event_call payload) None) start))))"
    from dispatch_extends [of ?w env event]
    obtain tl where "trace (dispatch env event ?w) = trace ?w @ tl"
      by (auto simp: prefix_def)
    then show ?thesis
      by (simp add: handleWebhook_constructed [OF assms None Inr] None emit_sel Println_sel start_sel)
  qed
qed

text \<open>Claim C2, as the code has it. For every inbound POST delivery whose body was read and
  passed the basic decoding, the handler prints the raw \<^verbatim>\<open>Stripe-Signature\<close> header and
  then the webhook shared secret on standard output, immediately before it calls
  \<^verbatim>\<open>webhook.ValidatePayload\<close>.\<close>

theorem secret_and_signature_printed:
  assumes "Method r = ''POST''" and "ReadAll r = Inr payload"
    and "json_Unmarshal_Event env payload = Inr e0"
  shows "take 4 (trace (handleWebhook env r start)) =
           [Call (json_Unmarshal_Event_call payload) None,
            Stdout (signatureHeader_of r @ nl),
            Stdout (webhook_secret env @ nl),
            Call (ValidatePayload_call payload (signatureHeader_of r) (webhook_secret env))
              (webhook_ValidatePayload env payload (signatureHeader_of r) (webhook_secret env))]"
proof -
  from handleWebhook_opening [OF assms] obtain rest where
    "trace (handleWebhook env r start) =
           [Call (json_Unmarshal_Event_call payload) None,
            Stdout (signatureHeader_of r @ nl),
            Stdout (webhook_secret env @ nl),
            Call (ValidatePayload_call payload (signatureHeader_of r) (webhook_secret env))
              (webhook_ValidatePayload env payload (signatureHeader_of r) (webhook_secret env))] @ rest"
    by blast
  then show ?thesis by simp
qed

text \<open>The premises of C2 hold for the example payload with a signature made for secret S1.\<close>

theorem secret_and_signature_printed_witness:
  "Method (delivery payload_completed ''t=1,v1=S1'') = ''POST''
   \<and> ReadAll (delivery payload_completed ''t=1,v1=S1'') = Inr payload_completed
   \<and> json_Unmarshal_Event env0 payload_completed = Inr event_completed
   \<and> take 4 (trace (handleWebhook env0 (delivery payload_completed ''t=1,v1=S1'') start)) =
       [Call (json_Unmarshal_Event_call payload_completed) None,
        Stdout (''t=1,v1=S1'' @ nl),
        Stdout (''whsec_S2'' @ nl),
        Call (ValidatePayload_call payload_completed ''t=1,v1=S1'' ''whsec_S2'')
          (Some ''webhook had no valid signature'')]"
  using secret_and_signature_printed [of "delivery payload_completed ''t=1,v1=S1''" payload_completed
      env0 event_completed]
  by (simp add: example_forged)

lemma example_delivery:
  "Method (delivery payload_completed ''t=1,v1=S2'') = ''POST''"
  "ReadAll (delivery payload_completed ''t=1,v1=S2'') = Inr payload_completed"
  "signatureHeader_of (delivery payload_completed ''t=1,v1=S2'') = ''t=1,v1=S2''"
  "webhook_ValidatePayload env0 payload_completed ''t=1,v1=S2'' ''whsec_S2'' = None"
  by (simp_all add: ReadAll_def MaxBodyBytes_def signatureHeader_of_def webhook_secret_def
      Values_Get_def env0_def delivery_def request0_def decode_event_def signed_S2_def
      payload_completed_def quoted_def dq_def)

text \<open>Claim C2 as stated fails: the example delivery writes the webhook secret and the raw
  signature header to standard output.\<close>

theorem secret_printed_counterexample:
  "webhook_secret env0 = ''whsec_S2''
   \<and> signatureHeader_of (delivery payload_completed ''t=1,v1=S2'') = ''t=1,v1=S2''
   \<and> Stdout (''whsec_S2'' @ nl) \<in> set (trace (handleWebhook env0 (delivery payload_completed ''t=1,v1=S2'') start))
   \<and> Stdout (''t=1,v1=S2'' @ nl) \<in> set (trace (handleWebhook env0 (delivery payload_completed ''t=1,v1=S2'') start))"
proof -
  from handleWebhook_opening [OF example_delivery(1) example_delivery(2) example_forged(3)]
  obtain rest where
    "trace (handleWebhook env0 (delivery payload_completed ''t=1,v1=S2'') start) =
       [Call (json_Unmarshal_Event_call payload_completed) None,
        Stdout (''t=1,v1=S2'' @ nl),
        Stdout (''whsec_S2'' @ nl),
        Call (ValidatePayload_call payload_completed ''t=1,v1=S2'' ''whsec_S2'') None] @ rest"
    by (auto simp: example_delivery example_forged)
  then show ?thesis
    by (simp add: example_delivery example_forged)
qed









section \<open>Properties of session creation\<close>


lemma ParseUint_loop_digits:
  "ParseUint_loop s n = Inr m \<Longrightarrow> list_all is_digit s"
  by (induction s arbitrary: n) (auto simp: Let_def split: if_splits)

lemma non_numeric_ParseInt:
  assumes "\<not> numeric q"
  shows "isl (ParseInt q)"
proof (rule ccontr)
  assume "\<not> isl (ParseInt q)"
  then obtain n where n: "ParseInt q = Inr n"
    by (cases "ParseInt q") auto
  then have "numeric q"
    by (auto simp: ParseInt_def ParseUint_def numeric_def Let_def
        dest: ParseUint_loop_digits split: if_splits sum.splits)
  with assms show False by simp
qed

lemma digits_grow:
  "list_all is_digit s \<Longrightarrow> 0 \<le> n \<Longrightarrow> n \<le> foldl (\<lambda>n c. n * 10 + ((of_char c :: int) - 48)) n s"
proof (induction s arbitrary: n)
  case Nil
  then show ?case by simp
next
  case (Cons c cs)
  from Cons.prems have d: "0 \<le> (of_char c :: int) - 48" by (simp add: is_digit_def)
  with Cons.prems have "0 \<le> n * 10 + ((of_char c :: int) - 48)" by simp
  with Cons.IH [of "n * 10 + ((of_char c :: int) - 48)"] Cons.prems
  have "n * 10 + ((of_char c :: int) - 48) \<le> foldl (\<lambda>n c. n * 10 + ((of_char c :: int) - 48)) (n * 10 + ((of_char c :: int) - 48)) cs"
    by simp
  with d Cons.prems show ?case by simp
qed

lemma ParseUint_loop_value:
  "list_all is_digit s \<Longrightarrow> 0 \<le> n \<Longrightarrow> n \<le> maxUint64 \<Longrightarrow>
   ParseUint_loop s n =
     (if foldl (\<lambda>n c. n * 10 + ((of_char c :: int) - 48)) n s \<le> maxUint64
      then Inr (foldl (\<lambda>n c. n * 10 + ((of_char c :: int) - 48)) n s) else Inl ErrRange)"
proof (induction s arbitrary: n)
  case Nil
  then show ?case by simp
next
  case (Cons c cs)
  let ?n1 = "n * 10 + ((of_char c :: int) - 48)"
  from Cons.prems have dig: "is_digit c" and rest: "list_all is_digit cs" by simp_all
  from dig have d: "0 \<le> (of_char c :: int) - 48" by (simp add: is_digit_def)
  with Cons.prems have n1: "0 \<le> ?n1" by simp
  from digits_grow [OF rest n1]
  have grow: "?n1 \<le> foldl (\<lambda>n c. n * 10 + ((of_char c :: int) - 48)) ?n1 cs" .
  show ?case
  proof (cases "n \<ge> maxUint64 div 10 + 1")
    case True
    with d have "?n1 > maxUint64" by (simp add: maxUint64_def)
    with grow True dig show ?thesis by simp
  next
    case small: False
    show ?thesis
    proof (cases "?n1 > maxUint64")
      case True
      with grow small dig show ?thesis by (simp add: Let_def)
    next
      case False
      with Cons.IH [OF rest n1] small dig show ?thesis by (simp add: Let_def)
    qed
  qed
qed

lemma digits_value_nonneg: "list_all is_digit s \<Longrightarrow> 0 \<le> digits_value s"
  using digits_grow [of s 0] by (simp add: digits_value_def)

lemma ParseUint_value:
  assumes "s \<noteq> []" and "list_all is_digit s"
  shows "ParseUint s = (if digits_value s \<le> maxUint64 then Inr (digits_value s) else Inl ErrRange)"
  using assms ParseUint_loop_value [of s 0]
  by (simp add: ParseUint_def digits_value_def maxUint64_def)

lemma ParseInt_numeric:
  assumes "numeric q"
  shows "ParseInt q = (if in_int64 (quantity_value q) then Inr (quantity_value q) else Inl ErrRange)"
proof -
  let ?s1 = "if hd q = CHR ''+'' \<or> hd q = CHR ''-'' then tl q else q"
  from assms have q: "q \<noteq> []" and s1: "?s1 \<noteq> []" and dig: "list_all is_digit ?s1"
    by (simp_all add: numeric_def Let_def)
  from digits_value_nonneg [OF dig] have nn: "0 \<le> digits_value ?s1" .
  from ParseUint_value [OF s1 dig]
  have pu: "ParseUint ?s1 = (if digits_value ?s1 \<le> maxUint64 then Inr (digits_value ?s1) else Inl ErrRange)" .
  show ?thesis
  proof (cases "hd q = CHR ''-''")
    case True
    with q pu nn show ?thesis
      by (simp add: ParseInt_def Let_def quantity_value_def in_int64_def maxUint64_def)
  next
    case False
    with q pu nn show ?thesis
      by (auto simp add: ParseInt_def Let_def quantity_value_def in_int64_def maxUint64_def)
  qed
qed

lemma slice_from_0: "slice_from s 0 = Inr s"
  by (simp add: slice_from_def)

lemma handleCreateCheckoutSession_parse_error:
  assumes "ParseInt (PostFormValue r ''quantity'') = Inl e"
  shows "handleCreateCheckoutSession env r w =
           http_Error (''error parsing quantity '' @ NumError_Error env (PostFormValue r ''quantity'') e)
             StatusInternalServerError w"
  using assms by (simp add: handleCreateCheckoutSession_def slice_from_0)

lemma handleCreateCheckoutSession_parsed:
  assumes "ParseInt (PostFormValue r ''quantity'') = Inr n"
  shows "trace (handleCreateCheckoutSession env r start) =
           map Stderr (stripe_logger env (error_of (session_New env (session_params env n))))
           @ [Call (session_New_call (session_params env n)) (error_of (session_New env (session_params env n)))]"
    and "panicked (handleCreateCheckoutSession env r start) = None"
  using assms
  by (simp_all add: handleCreateCheckoutSession_def slice_from_0 Let_def session_params_def error_of_def
      stripe_call_sel http_Error_sel start_sel http_Redirect_def WriteHeader_sel Header_Set_def
      split: sum.splits)

text \<open>Claim C4, as the code has it. For every purchase request whose quantity form value is
  not numeric, \<^verbatim>\<open>strconv.ParseInt\<close> fails; for a numeric value it fails exactly when the
  value is out of the range of \<^verbatim>\<open>int64\<close>, and returns the value otherwise, whatever its
  sign. When it fails the reply is status 500 with the text \<^verbatim>\<open>error parsing quantity\<close>
  and the parse error, and \<^verbatim>\<open>session.New\<close> is not reached. A quantity that parses, zero
  and negative values included, is passed on to \<^verbatim>\<open>session.New\<close> as it is.\<close>

theorem quantity_parse_gate:
  assumes "q = PostFormValue r ''quantity''"
  shows "(\<not> numeric q \<longrightarrow> isl (ParseInt q))
       \<and> (numeric q \<and> \<not> in_int64 (quantity_value q) \<longrightarrow> ParseInt q = Inl ErrRange)
       \<and> (numeric q \<and> in_int64 (quantity_value q) \<longrightarrow> ParseInt q = Inr (quantity_value q))
       \<and> (ParseInt q = Inl e \<longrightarrow>
            final_status (handleCreateCheckoutSession env r start) = 500
            \<and> body (handleCreateCheckoutSession env r start)
                = ''error parsing quantity '' @ NumError_Error env q e @ nl
            \<and> \<not> list_ex is_session_New (trace (handleCreateCheckoutSession env r start)))
       \<and> (ParseInt q = Inr n \<longrightarrow>
            trace (handleCreateCheckoutSession env r start)
              = map Stderr (stripe_logger env (error_of (session_New env (session_params env n))))
                @ [Call (session_New_call (session_params env n))
                     (error_of (session_New env (session_params env n)))]
            \<and> map Quantity (LineItems (session_params env n)) = [n])"
proof -
  have a: "\<not> numeric q \<longrightarrow> isl (ParseInt q)"
    by (simp add: non_numeric_ParseInt)
  have r1: "numeric q \<and> \<not> in_int64 (quantity_value q) \<longrightarrow> ParseInt q = Inl ErrRange"
    by (simp add: ParseInt_numeric)
  have r2: "numeric q \<and> in_int64 (quantity_value q) \<longrightarrow> ParseInt q = Inr (quantity_value q)"
    by (simp add: ParseInt_numeric)
  have b: "final_status (handleCreateCheckoutSession env r start) = 500
            \<and> body (handleCreateCheckoutSession env r start)
                = ''error parsing quantity '' @ NumError_Error env q e @ nl
            \<and> \<not> list_ex is_session_New (trace (handleCreateCheckoutSession env r start))"
    if "ParseInt q = Inl e"
    using that assms
    by (simp add: handleCreateCheckoutSession_parse_error exec_defs StatusInternalServerError_def)
  have c: "trace (handleCreateCheckoutSession env r start)
              = map Stderr (stripe_logger env (error_of (session_New env (session_params env n))))
                @ [Call (session_New_call (session_params env n))
                     (error_of (session_New env (session_params env n)))]
            \<and> map Quantity (LineItems (session_params env n)) = [n]"
    if "ParseInt q = Inr n"
    using that assms by (simp add: handleCreateCheckoutSession_parsed session_params_def)
  from a r1 r2 b c show ?thesis by blast
qed

lemma example_purchase: "PostFormValue (purchase q) ''quantity'' = q"
  by (simp add: PostFormValue_def purchase_def request0_def Values_Get_def)

lemma ParseInt_examples:
  "ParseInt ''abc'' = Inl ErrSyntax" "ParseInt ''0'' = Inr 0" "ParseInt [] = Inl ErrSyntax"
  "ParseInt ''2'' = Inr 2"
  by (simp_all add: ParseInt_def ParseUint_def is_digit_def maxUint64_def)

lemma quantity_examples:
  "\<not> numeric ''abc''"
  "numeric ''-3''" "quantity_value ''-3'' = - 3" "in_int64 (- 3)"
  "numeric ''9223372036854775808''"
  "quantity_value ''9223372036854775808'' = 9223372036854775808"
  "\<not> in_int64 9223372036854775808"
  by (simp_all add: numeric_def is_digit_def quantity_value_def digits_value_def in_int64_def)

lemma example_session_New:
  "error_of (session_New env0 (session_params env0 (- 3)))
     = Some ''This value must be greater than or equal to 1.''"
  "error_of (session_New env0 (session_params env0 0))
     = Some ''This value must be greater than or equal to 1.''"
  "error_of (session_New env0 (session_params env0 2)) = None"
  "stripe_logger env0 (Some e) = [''[ERROR] Request failed with error: '' @ e @ nl]"
  "stripe_logger env0 None = []"
  by (simp_all add: env0_def session_params_def error_of_def)

text \<open>The premises of C4 hold for the quantities \<^verbatim>\<open>abc\<close> (not numeric),
  \<^verbatim>\<open>9223372036854775808\<close> (numeric, out of range) and \<^verbatim>\<open>-3\<close> (numeric, negative).\<close>

theorem quantity_parse_gate_witness:
  "PostFormValue (purchase ''abc'') ''quantity'' = ''abc''
   \<and> \<not> numeric ''abc'' \<and> ParseInt ''abc'' = Inl ErrSyntax
   \<and> final_status (handleCreateCheckoutSession env0 (purchase ''abc'') start) = 500
   \<and> \<not> list_ex is_session_New (trace (handleCreateCheckoutSession env0 (purchase ''abc'') start))
   \<and> numeric ''9223372036854775808'' \<and> \<not> in_int64 (quantity_value ''9223372036854775808'')
   \<and> ParseInt ''9223372036854775808'' = Inl ErrRange
   \<and> final_status (handleCreateCheckoutSession env0 (purchase ''9223372036854775808'') start) = 500
   \<and> numeric ''-3'' \<and> in_int64 (quantity_value ''-3'')
   \<and> ParseInt ''-3'' = Inr (- 3)
   \<and> trace (handleCreateCheckoutSession env0 (purchase ''-3'') start)
       = [Stderr (''[ERROR] Request failed with error: This value must be greater than or equal to 1.'' @ nl),
          Call (session_New_call (session_params env0 (- 3)))
            (Some ''This value must be greater than or equal to 1.'')]"
  using quantity_parse_gate [of "''abc''" "purchase ''abc''" ErrSyntax env0 0]
    quantity_parse_gate [of "''9223372036854775808''" "purchase ''9223372036854775808''" ErrRange env0 0]
    quantity_parse_gate [of "''-3''" "purchase ''-3''" ErrSyntax env0 "- 3"]
  by (simp add: example_purchase quantity_examples example_session_New ParseInt_examples)

text \<open>Claim C4 as stated fails: the quantity \<^verbatim>\<open>0\<close> is parsed and reaches
  \<^verbatim>\<open>session.New\<close>; the error in the reply is the one the remote call returned.\<close>

theorem quantity_zero_counterexample:
  "PostFormValue (purchase ''0'') ''quantity'' = ''0''
   \<and> ParseInt ''0'' = Inr 0
   \<and> trace (handleCreateCheckoutSession env0 (purchase ''0'') start)
       = [Stderr (''[ERROR] Request failed with error: This value must be greater than or equal to 1.'' @ nl),
          Call (session_New_call (session_params env0 0))
            (Some ''This value must be greater than or equal to 1.'')]
   \<and> list_ex is_session_New (trace (handleCreateCheckoutSession env0 (purchase ''0'') start))
   \<and> Quantity (hd (LineItems (session_params env0 0))) = 0
   \<and> body (handleCreateCheckoutSession env0 (purchase ''0'') start)
       = ''error while creating session This value must be greater than or equal to 1.'' @ nl"
proof -
  have p: "ParseInt (PostFormValue (purchase ''0'') ''quantity'') = Inr 0"
    by (simp add: example_purchase ParseInt_examples)
  have b: "body (handleCreateCheckoutSession env0 (purchase ''0'') start)
       = ''error while creating session This value must be greater than or equal to 1.'' @ nl"
    by (simp add: handleCreateCheckoutSession_def slice_from_0 p Let_def env0_def exec_defs
        stripe_call_def emit_all_def)
  have z: "Quantity (hd (LineItems (session_params env0 0))) = 0"
    by (simp add: session_params_def)
  from handleCreateCheckoutSession_parsed(1) [OF p, of env0] b z show ?thesis
    by (simp add: example_purchase ParseInt_examples example_session_New)
qed

text \<open>Claim C5, as the code has it. The handler does not panic on any request: the slice
  \<^verbatim>\<open>[0:]\<close> of a string is in range for every string, the empty one included. For an
  empty quantity \<^verbatim>\<open>strconv.ParseInt\<close> fails with a syntax error and the reply is status
  500 with that error, \<^verbatim>\<open>session.New\<close> not being called.\<close>

theorem create_session_never_panics:
  "panicked (handleCreateCheckoutSession env r start) = None
   \<and> (PostFormValue r ''quantity'' = [] \<longrightarrow>
        final_status (handleCreateCheckoutSession env r start) = 500
        \<and> body (handleCreateCheckoutSession env r start)
            = ''error parsing quantity strconv.ParseInt: parsing '' @ strconv_Quote env []
              @ '': invalid syntax'' @ nl
        \<and> trace (handleCreateCheckoutSession env r start) = [])"
proof -
  have a: "panicked (handleCreateCheckoutSession env r start) = None"
  proof (cases "ParseInt (PostFormValue r ''quantity'')")
    case (Inl e)
    then show ?thesis
      by (simp add: handleCreateCheckoutSession_parse_error http_Error_sel start_sel)
  next
    case (Inr n)
    then show ?thesis by (simp add: handleCreateCheckoutSession_parsed)
  qed
  have b: "final_status (handleCreateCheckoutSession env r start) = 500
        \<and> body (handleCreateCheckoutSession env r start)
            = ''error parsing quantity strconv.ParseInt: parsing '' @ strconv_Quote env []
              @ '': invalid syntax'' @ nl
        \<and> trace (handleCreateCheckoutSession env r start) = []"
    if "PostFormValue r ''quantity'' = []"
    using that
    by (simp add: handleCreateCheckoutSession_parse_error [of r ErrSyntax] ParseInt_examples exec_defs
        StatusInternalServerError_def NumError_Error_def NumError_text_def)
  from a b show ?thesis by blast
qed

text \<open>The premise of C5 holds for a purchase with an empty quantity.\<close>

theorem create_session_never_panics_witness:
  "PostFormValue (purchase []) ''quantity'' = []
   \<and> panicked (handleCreateCheckoutSession env0 (purchase []) start) = None
   \<and> final_status (handleCreateCheckoutSession env0 (purchase []) start) = 500
   \<and> trace (handleCreateCheckoutSession env0 (purchase []) start) = []"
  using create_session_never_panics [of env0 "purchase []"]
  by (simp add: example_purchase)

text \<open>Claim C5 as stated fails: on an empty quantity the slice yields the empty string and
  the handler does not panic.\<close>

theorem empty_quantity_counterexample:
  "PostFormValue (purchase []) ''quantity'' = []
   \<and> slice_from (PostFormValue (purchase []) ''quantity'') 0 = Inr []
   \<and> panicked (handleCreateCheckoutSession env0 (purchase []) start) = None
   \<and> final_status (handleCreateCheckoutSession env0 (purchase []) start) = 500"
  by (simp add: handleCreateCheckoutSession_def slice_from_0 example_purchase ParseInt_examples
      exec_defs StatusInternalServerError_def)

section \<open>Properties of the replies\<close>


lemma http_Error_reply:
  assumes "status w = None" and "body w = []"
  shows "header (http_Error msg c w) ''Content-Type'' = Some ''text/plain; charset=utf-8''"
    and "body (http_Error msg c w) = msg @ nl"
    and "final_status (http_Error msg c w) = c"
  using assms by (simp_all add: exec_defs Let_def)

lemma writeJSON_reply:
  assumes "status w = None" and "body w = []"
    and "400 \<le> final_status (writeJSON env v w)" and "body (writeJSON env v w) \<noteq> []"
  shows "header (writeJSON env v w) ''Content-Type'' = Some ''text/plain; charset=utf-8''
         \<and> suffix nl (body (writeJSON env v w))"
  using assms
  by (auto simp add: writeJSON_def exec_defs Let_def suffix_def StatusInternalServerError_def
      split: sum.splits option.splits)

lemma final_status_untouched:
  "final_status (emit e w) = final_status w" "final_status (Println s w) = final_status w"
  "final_status (panic m w) = final_status w"
  "final_status (sendConfirmationEmail d w) = final_status w"
  "final_status (updatePaymentStatus d w) = final_status w"
  "status w = None \<Longrightarrow> final_status w = 200"
  by (simp_all add: final_status_def emit_def Println_def panic_def sendConfirmationEmail_def
      updatePaymentStatus_def)

lemma body_untouched:
  "body (panic m w) = body w" "body (sendConfirmationEmail d w) = body w"
  "body (updatePaymentStatus d w) = body w"
  by (simp_all add: emit_def Println_def panic_def sendConfirmationEmail_def updatePaymentStatus_def)

lemma dispatch_reply:
  assumes "status w = None" and "body w = []"
  shows "400 \<le> final_status (dispatch env event w) \<longrightarrow> body (dispatch env event w) = []"
  using assms
  by (simp add: dispatch_def Let_def writeJSON_success_status notifier_sel Println_sel emit_sel
      WriteHeader_sel final_status_untouched body_untouched split: option.splits sum.splits)

lemma config_object_encodes:
  "json_Encode env (JObject [(''publicKey'', JString k), (''unitAmount'', JInt a), (''currency'', JString c)])
     = Inr (''{'' @ dq @ ''publicKey'' @ dq @ '':'' @ json_string env k
            @ '','' @ dq @ ''unitAmount'' @ dq @ '':'' @ FormatInt a
            @ '','' @ dq @ ''currency'' @ dq @ '':'' @ json_string env c @ ''}'' @ nl)"
  by (simp add: json_Encode_def)

lemma handleConfig_reply:
  assumes "400 \<le> final_status (handleConfig env r start)" and "body (handleConfig env r start) \<noteq> []"
  shows "header (handleConfig env r start) ''Content-Type'' = Some ''text/plain; charset=utf-8''
       \<and> suffix nl (body (handleConfig env r start))"
proof (cases "Method r = ''GET''")
  case False
  then show ?thesis
    by (simp add: handleConfig_def http_Error_reply start_sel suffix_def)
next
  case True
  with assms show ?thesis
    by (simp add: handleConfig_def Let_def writeJSON_reply stripe_call_sel start_sel)
qed

lemma handleCheckoutSession_reply:
  assumes "400 \<le> final_status (handleCheckoutSession env r start)"
    and "body (handleCheckoutSession env r start) \<noteq> []"
  shows "header (handleCheckoutSession env r start) ''Content-Type'' = Some ''text/plain; charset=utf-8''
       \<and> suffix nl (body (handleCheckoutSession env r start))"
proof (cases "Method r = ''GET''")
  case False
  then show ?thesis
    by (simp add: handleCheckoutSession_def http_Error_reply start_sel suffix_def)
next
  case True
  with assms show ?thesis
    by (simp add: handleCheckoutSession_def Let_def writeJSON_reply stripe_call_sel start_sel)
qed

lemma handleCreateCheckoutSession_reply:
  "400 \<le> final_status (handleCreateCheckoutSession env r start)
     \<and> body (handleCreateCheckoutSession env r start) \<noteq> []
   \<longrightarrow> header (handleCreateCheckoutSession env r start) ''Content-Type'' = Some ''text/plain; charset=utf-8''
       \<and> suffix nl (body (handleCreateCheckoutSession env r start))"
  by (simp add: handleCreateCheckoutSession_def Let_def http_Error_reply stripe_call_sel start_sel
      suffix_def slice_from_def http_Redirect_def WriteHeader_def Header_Set_def split: sum.splits)

lemma handleWebhook_reply:
  assumes "400 \<le> final_status (handleWebhook env r start)"
    and "body (handleWebhook env r start) \<noteq> []"
  shows "header (handleWebhook env r start) ''Content-Type'' = Some ''text/plain; charset=utf-8''
       \<and> suffix nl (body (handleWebhook env r start))"
proof (cases "Method r = ''POST''")
  case False
  then show ?thesis
    by (simp add: handleWebhook_def http_Error_reply start_sel suffix_def)
next
  case post: True
  show ?thesis
  proof (cases "ReadAll r")
    case (Inl err)
    with post assms(2) show ?thesis
      by (simp add: handleWebhook_def WriteHeader_sel emit_sel start_sel)
  next
    case read: (Inr payload)
    show ?thesis
    proof (cases "json_Unmarshal_Event env payload")
      case (Inl err)
      with assms(2) show ?thesis
        by (simp add: handleWebhook_decode_failure [OF post read Inl] WriteHeader_sel emit_sel start_sel)
    next
      case dec: (Inr e0)
      show ?thesis
      proof (cases "webhook_ValidatePayload env payload (signatureHeader_of r) (webhook_secret env)")
        case (Some err)
        with assms(2) show ?thesis
          by (simp add: handleWebhook_signature_failure [OF post read dec Some] WriteHeader_sel
              emit_sel Println_sel start_sel)
      next
        case ok: None
        show ?thesis
        proof (cases "webhook_ConstructEvent env payload (signatureHeader_of r) (webhook_secret env)")
          case (Inl err)
          show ?thesis
            by (simp add: handleWebhook_construct_failure [OF post read dec ok Inl] emit_sel
                Println_sel start_sel http_Error_reply suffix_def)
        next
          case (Inr event)
          with assms show ?thesis
            by (simp add: handleWebhook_constructed [OF post read dec ok Inr] emit_sel Println_sel
                start_sel dispatch_reply)
        qed
      qed
    qed
  qed
qed

lemma ErrorResponse_encodes:
  "json_Encode env (ErrorResponse_json \<lparr>Error = \<lparr>Message = message\<rparr>\<rparr>)
     = Inr (ErrorResponse_prefix @ json_string env message @ ''}}'' @ nl)"
  by (simp add: json_Encode_def ErrorResponse_json_def ErrorResponse_prefix_def)

text \<open>Claim C6, as the code has it. For every request to one of the four handlers that
  produces an error response with a message body, the body is the plain text of
  \<^verbatim>\<open>http.Error\<close>: content type \<^verbatim>\<open>text/plain; charset=utf-8\<close>, the message and a
  newline. The JSON shape of the interface description is what
  \<open>writeJSONErrorMessage\<close> writes, and no handler calls it.\<close>

theorem error_bodies_are_plain_text:
  "(h \<in> set handlers \<and> 400 \<le> final_status (h env r start) \<and> body (h env r start) \<noteq> []
      \<longrightarrow> header (h env r start) ''Content-Type'' = Some ''text/plain; charset=utf-8''
          \<and> suffix nl (body (h env r start)))
   \<and> (io_Copy_err env (ErrorResponse_prefix @ json_string env message @ ''}}'' @ nl) = None
      \<longrightarrow> ErrorResponse_shape (body (writeJSONErrorMessage env message code start))
          \<and> final_status (writeJSONErrorMessage env message code start) = code)"
proof -
  have a: "header (h env r start) ''Content-Type'' = Some ''text/plain; charset=utf-8''
          \<and> suffix nl (body (h env r start))"
    if "h \<in> set handlers \<and> 400 \<le> final_status (h env r start) \<and> body (h env r start) \<noteq> []"
    using that handleConfig_reply [of env r] handleCheckoutSession_reply [of env r]
      handleCreateCheckoutSession_reply [of env r] handleWebhook_reply [of env r]
    by (auto simp: handlers_def)
  have b: "ErrorResponse_shape (body (writeJSONErrorMessage env message code start))
          \<and> final_status (writeJSONErrorMessage env message code start) = code"
    if "io_Copy_err env (ErrorResponse_prefix @ json_string env message @ ''}}'' @ nl) = None"
    using that
    by (simp add: writeJSONErrorMessage_def writeJSONError_def writeJSON_def ErrorResponse_encodes
        exec_defs Let_def ErrorResponse_shape_def suffix_def nl_def)
  from a b show ?thesis by blast
qed

lemma example_abc:
  "final_status (handleCreateCheckoutSession env0 (purchase ''abc'') start) = 500"
  "body (handleCreateCheckoutSession env0 (purchase ''abc'') start)
     = ''error parsing quantity strconv.ParseInt: parsing '' @ dq @ ''abc'' @ dq @ '': invalid syntax'' @ nl"
  by (simp_all add: handleCreateCheckoutSession_def slice_from_def example_purchase ParseInt_examples
      exec_defs StatusInternalServerError_def NumError_Error_def NumError_text_def env0_def quoted_def)

text \<open>The premises of C6 hold for a purchase with quantity \<^verbatim>\<open>abc\<close>.\<close>

theorem error_bodies_are_plain_text_witness:
  "handleCreateCheckoutSession \<in> set handlers
   \<and> 400 \<le> final_status (handleCreateCheckoutSession env0 (purchase ''abc'') start)
   \<and> body (handleCreateCheckoutSession env0 (purchase ''abc'') start) \<noteq> []
   \<and> header (handleCreateCheckoutSession env0 (purchase ''abc'') start) ''Content-Type''
       = Some ''text/plain; charset=utf-8''
   \<and> io_Copy_err env0 (ErrorResponse_prefix @ json_string env0 ''no'' @ ''}}'' @ nl) = None
   \<and> ErrorResponse_shape (body (writeJSONErrorMessage env0 ''no'' 500 start))"
  using error_bodies_are_plain_text [of handleCreateCheckoutSession env0 "purchase ''abc''" "''no''" 500]
  by (simp add: example_abc handlers_def) (simp add: env0_def)

text \<open>Claim C6 as stated fails: the error body for quantity \<^verbatim>\<open>abc\<close> is a line of text, not
  a JSON object.\<close>

theorem error_body_shape_counterexample:
  "final_status (handleCreateCheckoutSession env0 (purchase ''abc'') start) = 500
   \<and> body (handleCreateCheckoutSession env0 (purchase ''abc'') start)
       = ''error parsing quantity strconv.ParseInt: parsing '' @ dq @ ''abc'' @ dq @ '': invalid syntax'' @ nl
   \<and> \<not> ErrorResponse_shape (body (handleCreateCheckoutSession env0 (purchase ''abc'') start))"
  by (simp add: example_abc ErrorResponse_shape_def ErrorResponse_prefix_def)

text \<open>While the Stripe API cannot be reached, \<^verbatim>\<open>GET /config\<close> and
  \<^verbatim>\<open>GET /checkout-session\<close> answer 200 with the encoding of an empty struct. The handlers
  drop the error; the one message is the line the logger of the Stripe client writes.\<close>

lemma lookup_failure_logged_by_client:
  "trace (handleConfig env_down request0 start)
     = [Stderr (''[ERROR] Request failed with error: connection refused'' @ nl),
        Call (price_Get_call ''price_1'') (Some ''connection refused'')]"
  "final_status (handleConfig env_down request0 start) = 200"
  "reported (handleConfig env_down request0 start)"
  "trace (handleCheckoutSession env_down request0 start)
     = [Stderr (''[ERROR] Request failed with error: connection refused'' @ nl),
        Call (session_Get_call []) (Some ''connection refused'')]"
  "final_status (handleCheckoutSession env_down request0 start) = 200"
  "reported (handleCheckoutSession env_down request0 start)"
  by (simp_all add: handleConfig_def handleCheckoutSession_def writeJSON_def json_Encode_def reported_def
      env_down_def env0_def request0_def Values_Get_def exec_defs stripe_call_def emit_all_def Let_def)

text \<open>Claim C7 on the code: a purchase whose form holds \<^verbatim>\<open>quantity=2\<close> and a pair with
  a bad escape makes \<^verbatim>\<open>r.ParseForm()\<close> return an error, which line 80 drops. The handler
  creates the session and redirects with status 303; nothing is written to standard
  output, standard error or the log, where the claim asks for a logged message or an
  error status.\<close>

theorem form_error_discarded:
  "ParseFormErr bad_form_purchase = Some (''invalid URL escape '' @ dq @ ''%zz'' @ dq)
   \<and> PostFormValue bad_form_purchase ''quantity'' = ''2''
   \<and> session_New env0 (session_params env0 2)
       = Inr (session_empty\<lparr>URL := ''https://checkout.stripe.com/pay/cs_test_1''\<rparr>)
   \<and> trace (handleCreateCheckoutSession env0 bad_form_purchase start)
       = [Call (session_New_call (session_params env0 2)) None]
   \<and> final_status (handleCreateCheckoutSession env0 bad_form_purchase start) = 303
   \<and> header (handleCreateCheckoutSession env0 bad_form_purchase start) ''Location''
       = Some ''https://checkout.stripe.com/pay/cs_test_1''
   \<and> body (handleCreateCheckoutSession env0 bad_form_purchase start) = []
   \<and> \<not> reported (handleCreateCheckoutSession env0 bad_form_purchase start)"
proof -
  have q: "PostFormValue bad_form_purchase ''quantity'' = ''2''"
    by (simp add: bad_form_purchase_def example_purchase PostFormValue_def purchase_def request0_def
        Values_Get_def)
  have n: "session_New env0 (session_params env0 2)
       = Inr (session_empty\<lparr>URL := ''https://checkout.stripe.com/pay/cs_test_1''\<rparr>)"
    by (simp add: env0_def session_params_def)
  have d: "handleCreateCheckoutSession env0 bad_form_purchase start
       = http_Redirect ''https://checkout.stripe.com/pay/cs_test_1'' StatusSeeOther
           (stripe_call env0 (session_New_call (session_params env0 2)) None start)"
    using n
    by (simp add: handleCreateCheckoutSession_def slice_from_0 q ParseInt_examples Let_def
        session_params_def session_empty_def)
  have e: "ParseFormErr bad_form_purchase = Some (''invalid URL escape '' @ dq @ ''%zz'' @ dq)"
    by (simp add: bad_form_purchase_def)
  show ?thesis
    unfolding d
    by (simp add: q n e reported_def exec_defs stripe_call_def emit_all_def
        example_session_New StatusSeeOther_def)
qed

text \<open>Claim C10. For every \<^verbatim>\<open>GET /config\<close> request whose reply reaches the client, the
  value served in the \<^verbatim>\<open>publicKey\<close> member is the value of the environment variable
  \<^verbatim>\<open>STRIPE_SECRET_KEY\<close>.\<close>

theorem config_serves_secret_key:
  assumes "Method r = ''GET''"
    and "p = fst (price_Get env (Getenv env ''PRICE''))"
    and "reply = ''{'' @ dq @ ''publicKey'' @ dq @ '':'' @ json_string env (Getenv env ''STRIPE_SECRET_KEY'')
                 @ '','' @ dq @ ''unitAmount'' @ dq @ '':'' @ FormatInt (UnitAmount p)
                 @ '','' @ dq @ ''currency'' @ dq @ '':'' @ json_string env (PriceCurrency p) @ ''}'' @ nl"
    and "io_Copy_err env reply = None"
  shows "body (handleConfig env r start) = reply
       \<and> final_status (handleConfig env r start) = 200
       \<and> header (handleConfig env r start) ''Content-Type'' = Some ''application/json''"
  using assms
  by (simp add: handleConfig_def writeJSON_def config_object_encodes exec_defs stripe_call_def
      emit_all_def Let_def)

lemma example_config:
  "Method request0 = ''GET''" "Getenv env0 ''STRIPE_SECRET_KEY'' = ''sk_test_51''"
  "price_Get env0 (Getenv env0 ''PRICE'') = (\<lparr>UnitAmount = 2000, PriceCurrency = ''usd''\<rparr>, None)"
  "json_string env0 = quoted" "io_Copy_err env0 buf = None"
  by (simp_all add: request0_def env0_def)

lemma FormatInt_examples: "FormatInt 2000 = ''2000''" "FormatInt 0 = ''0''"
  by code_simp+

text \<open>The premises of C10 hold in the example deployment.\<close>

theorem config_serves_secret_key_witness:
  "Method request0 = ''GET''
   \<and> Getenv env0 ''STRIPE_SECRET_KEY'' = ''sk_test_51''
   \<and> fst (price_Get env0 (Getenv env0 ''PRICE'')) = \<lparr>UnitAmount = 2000, PriceCurrency = ''usd''\<rparr>
   \<and> io_Copy_err env0 (body (handleConfig env0 request0 start)) = None
   \<and> body (handleConfig env0 request0 start)
       = ''{'' @ dq @ ''publicKey'' @ dq @ '':'' @ dq @ ''sk_test_51'' @ dq
         @ '','' @ dq @ ''unitAmount'' @ dq @ '':2000''
         @ '','' @ dq @ ''currency'' @ dq @ '':'' @ dq @ ''usd'' @ dq @ ''}'' @ nl
   \<and> final_status (handleConfig env0 request0 start) = 200"
  using config_serves_secret_key [of request0 _ env0, OF _ refl refl]
  by (simp add: example_config quoted_def FormatInt_examples)

end
